theory Spec2Isabelle
  imports Main
begin

section \<open>Vocabulary shared by the two endpoints\<close>

text \<open>
  The listener endpoint (\<^verbatim>\<open>blibfabric.c\<close>) and the connector endpoint
  (\<^verbatim>\<open>clibfabric.c\<close>) are event handlers: each invocation reads the endpoint's
  fields, calls collaborators (socket, backoff timer, resolver, per-connection machines,
  endpoint base) and assigns the next state. An invocation is modelled as a function from
  the endpoint record and the event to either an abort or the updated record together
  with the list of collaborator calls it made, in program order.

  Pointers to per-connection machines are natural numbers; \<open>None\<close> is \<^verbatim>\<open>NULL\<close>.
\<close>

type_synonym ptr = nat

text \<open>The address family found in \<^verbatim>\<open>ss_family\<close>; the code branches on the first two.\<close>

datatype family = AF_INET | AF_INET6 | AF_OTHER

datatype stat =
    NN_STAT_INPROGRESS_CONNECTIONS
  | NN_STAT_ESTABLISHED_CONNECTIONS
  | NN_STAT_BROKEN_CONNECTIONS
  | NN_STAT_DROPPED_CONNECTIONS
  | NN_STAT_CONNECT_ERRORS

datatype sockopt = SO_SNDBUF | SO_RCVBUF

text \<open>
  One constructor per collaborator function the two files call. A call that returns a
  status carries it as its last \<open>int\<close>; \<open>Alibfabric_isidle\<close> and \<open>Usock_isidle\<close>
  carry the answer. \<open>Usock_bind\<close> and \<open>Usock_connect\<close> carry the family and the
  port (host order) of the address passed; \<open>Dns_start\<close> carries the text at the
  pointer passed, the length passed and the IPV4ONLY flag.
\<close>

datatype call =
    Epbase_init
  | Epbase_term
  | Epbase_stopped
  | Epbase_stat_increment stat int
  | Epbase_set_error int
  | Epbase_clear_error
  | Fsm_init_root
  | Fsm_start
  | Fsm_stopped_noevent
  | Fsm_term
  | Backoff_init int int
  | Backoff_start
  | Backoff_stop
  | Backoff_term
  | Usock_init
  | Usock_start family int
  | Usock_setsockopt sockopt int
  | Usock_bind family nat int
  | Usock_listen int int
  | Usock_connect family nat
  | Usock_stop
  | Usock_isidle bool
  | Usock_term
  | List_init
  | List_term
  | Alibfabric_init ptr
  | Alibfabric_start ptr
  | Alibfabric_stop ptr
  | Alibfabric_isidle ptr bool
  | Alibfabric_term ptr
  | Slibfabric_init
  | Slibfabric_start
  | Slibfabric_stop
  | Dns_init
  | Dns_start string int int
  | Dns_stop
  | Free ptr
  | Free_self

text \<open>
  Every way an invocation can end without returning: \<^verbatim>\<open>alloc_assert\<close>,
  \<^verbatim>\<open>nn_assert\<close> / \<^verbatim>\<open>errnum_assert\<close> / \<^verbatim>\<open>nn_assert_state\<close>, the three
  \<^verbatim>\<open>nn_fsm_bad_*\<close> macros, and the use of a null pointer.
\<close>

datatype error =
    Alloc_failed
  | Assert_failed
  | Bad_action
  | Bad_source
  | Bad_state
  | Null_deref

text \<open>
  Event sources and event types are integers in the code. A source is the tag an
  endpoint hands to a collaborator when it initialises it, so each endpoint only meets
  its own tags: \<open>SRC_USOCK\<close> stands for \<^verbatim>\<open>NN_BLIBFABRIC_SRC_USOCK\<close> in the
  listener and for \<^verbatim>\<open>NN_CLIBFABRIC_SRC_USOCK\<close> in the connector, and likewise for
  the other sources. The numeric values of \<^verbatim>\<open>NN_FSM_ACTION\<close> and of the event
  types live in headers; an event type is identified by the name of its constant.
  \<open>SRC_OTHER\<close> and \<open>TYPE_OTHER\<close> stand for any value that is none of the named
  ones.
\<close>

datatype src =
    NN_FSM_ACTION
  | SRC_USOCK
  | SRC_ALIBFABRIC
  | SRC_RECONNECT_TIMER
  | SRC_DNS
  | SRC_SLIBFABRIC
  | SRC_OTHER int

datatype evtype =
    NN_FSM_START
  | NN_FSM_STOP
  | NN_USOCK_CONNECTED
  | NN_USOCK_ERROR
  | NN_USOCK_SHUTDOWN
  | NN_USOCK_STOPPED
  | NN_BACKOFF_TIMEOUT
  | NN_BACKOFF_STOPPED
  | NN_ALIBFABRIC_ACCEPTED
  | NN_ALIBFABRIC_ERROR
  | NN_ALIBFABRIC_STOPPED
  | NN_DNS_DONE
  | NN_DNS_STOPPED
  | NN_SLIBFABRIC_ERROR
  | NN_SLIBFABRIC_STOPPED
  | TYPE_OTHER int

text \<open>
  What the endpoint base hands out: the address string and the socket options, and the
  address helpers of \<^verbatim>\<open>utils/\<close>, which are outside these two files and therefore
  parameters. A helper receives the text at the pointer it is given (up to the end of
  the address), the length it is given, and returns its status; \<open>iface_resolve\<close> also
  returns the family it stored.
\<close>

record config =
  addr :: string
  ipv4only :: int
  reconnect_ivl :: int
  reconnect_ivl_max :: int
  sndbuf :: int
  rcvbuf :: int
  port_resolve :: "string \<Rightarrow> int \<Rightarrow> int"
  iface_resolve :: "string \<Rightarrow> int \<Rightarrow> int \<Rightarrow> int \<times> family"
  dns_check_hostname :: "string \<Rightarrow> int \<Rightarrow> int"
  literal_resolve :: "string \<Rightarrow> int \<Rightarrow> int \<Rightarrow> int"

text \<open>
  What the collaborators answer during one invocation: the status of
  \<^verbatim>\<open>nn_usock_start\<close>, \<^verbatim>\<open>nn_usock_bind\<close>, \<^verbatim>\<open>nn_usock_listen\<close>, the pointer
  \<^verbatim>\<open>nn_alloc\<close> returns, the two idleness queries, the socket's errno, and the result
  slot the resolver has filled in.
\<close>

record answers =
  usock_start_rc :: int
  usock_bind_rc :: int
  usock_listen_rc :: int
  alloc :: "ptr option"
  alibfabric_isidle :: bool
  usock_isidle :: bool
  usock_geterrno :: int
  dns_result_error :: int
  dns_result_family :: family

text \<open>The two errno values the creation functions return (Linux numbering).\<close>

definition EINVAL :: int where
  "EINVAL = 22"

definition ENODEV :: int where
  "ENODEV = 19"

text \<open>\<^verbatim>\<open>strchr\<close> and \<^verbatim>\<open>strrchr\<close>: the offset of the first, of the last occurrence.\<close>

definition strchr :: "string \<Rightarrow> char \<Rightarrow> nat option" where
  "strchr s c =
     (if c \<in> set s then Some (length (takeWhile (\<lambda>x. x \<noteq> c) s)) else None)"

definition strrchr :: "string \<Rightarrow> char \<Rightarrow> nat option" where
  "strrchr s c =
     (if c \<in> set s
      then Some (length s - Suc (length (takeWhile (\<lambda>x. x \<noteq> c) (rev s))))
      else None)"

text \<open>\<^verbatim>\<open>uint16_t port = rc; ... htons (port)\<close>: the port that reaches the address.\<close>

definition port_of :: "int \<Rightarrow> nat" where
  "port_of rc = nat (rc mod 65536)"

section \<open>The listener endpoint\<close>

datatype bstate =
    NN_BLIBFABRIC_STATE_IDLE
  | NN_BLIBFABRIC_STATE_ACTIVE
  | NN_BLIBFABRIC_STATE_STOPPING_ALIBFABRIC
  | NN_BLIBFABRIC_STATE_STOPPING_USOCK
  | NN_BLIBFABRIC_STATE_STOPPING_ALIBFABRICS
  | NN_BLIBFABRIC_STATE_LISTENING
  | NN_BLIBFABRIC_STATE_WAITING
  | NN_BLIBFABRIC_STATE_CLOSING
  | NN_BLIBFABRIC_STATE_STOPPING_BACKOFF

definition NN_BLIBFABRIC_BACKLOG :: int where
  "NN_BLIBFABRIC_BACKLOG = 100"

text \<open>
  \<^verbatim>\<open>struct nn_blibfabric\<close>: the state, the connection being accepted at the moment
  and the list of accepted connections. The socket, the timer and the bases are
  collaborators and appear through the calls made on them.
\<close>

record nn_blibfabric =
  b_state :: bstate
  alibfabric :: "ptr option"
  alibfabrics :: "ptr list"

text \<open>
  \<^verbatim>\<open>nn_blibfabric_create\<close>. The first argument is the configuration behind
  \<^verbatim>\<open>hint\<close>, the second what \<^verbatim>\<open>nn_alloc\<close> returns. The result is the returned
  status, the calls made and, on success, the object behind \<^verbatim>\<open>*epbase\<close>.
\<close>

definition nn_blibfabric_create ::
  "config \<Rightarrow> ptr option \<Rightarrow> error + (int \<times> call list \<times> nn_blibfabric option)" where
  "nn_blibfabric_create cfg mem =
     (case mem of
        None \<Rightarrow> Inl Alloc_failed
      | Some self \<Rightarrow>
         (case strrchr (addr cfg) CHR '':'' of
            None \<Rightarrow> Inr (- EINVAL, [Epbase_init, Epbase_term], None)
          | Some colon \<Rightarrow>
             (let pos = Suc colon in
              if port_resolve cfg (drop pos (addr cfg))
                   (int (length (addr cfg)) - int pos) < 0
              then Inr (- EINVAL, [Epbase_init, Epbase_term], None)
              else if fst (iface_resolve cfg (addr cfg) (int pos - 1) (ipv4only cfg)) < 0
              then Inr (- ENODEV, [Epbase_init, Epbase_term], None)
              else Inr (0,
                     [Epbase_init, Fsm_init_root,
                      Backoff_init (reconnect_ivl cfg)
                        (if reconnect_ivl_max cfg = 0 then reconnect_ivl cfg
                         else reconnect_ivl_max cfg),
                      Usock_init, List_init, Fsm_start],
                     Some \<lparr>b_state = NN_BLIBFABRIC_STATE_IDLE, alibfabric = None,
                           alibfabrics = []\<rparr>))))"

text \<open>\<^verbatim>\<open>nn_blibfabric_start_accepting\<close>.\<close>

definition nn_blibfabric_start_accepting ::
  "answers \<Rightarrow> nn_blibfabric \<Rightarrow> error + (nn_blibfabric \<times> call list)" where
  "nn_blibfabric_start_accepting env self =
     (if alibfabric self \<noteq> None then Inl Assert_failed
      else case alloc env of
        None \<Rightarrow> Inl Alloc_failed
      | Some p \<Rightarrow>
          Inr (self\<lparr>alibfabric := Some p\<rparr>, [Alibfabric_init p, Alibfabric_start p]))"

text \<open>
  \<^verbatim>\<open>nn_blibfabric_start_listening\<close>. The address is parsed again, under
  assertions; then the socket is opened, bound and put to listen, each step with its
  own failure branch.
\<close>

definition nn_blibfabric_start_listening ::
  "config \<Rightarrow> answers \<Rightarrow> nn_blibfabric \<Rightarrow> error + (nn_blibfabric \<times> call list)" where
  "nn_blibfabric_start_listening cfg env self =
     (case strrchr (addr cfg) CHR '':'' of
        None \<Rightarrow> Inl Assert_failed
      | Some colon \<Rightarrow>
         (let pos = Suc colon;
              rc = port_resolve cfg (drop pos (addr cfg))
                     (int (length (addr cfg)) - int pos)
          in if rc < 0 then Inl Assert_failed
          else
           (let port = port_of rc;
                (rc, ss_family) =
                   iface_resolve cfg (addr cfg) (int pos - 1) (ipv4only cfg)
            in if rc \<noteq> 0 then Inl Assert_failed
            else if ss_family \<noteq> AF_INET \<and> ss_family \<noteq> AF_INET6 then Inl Assert_failed
            else if usock_start_rc env < 0
            then Inr (self\<lparr>b_state := NN_BLIBFABRIC_STATE_WAITING\<rparr>,
                      [Usock_start ss_family (usock_start_rc env), Backoff_start])
            else if usock_bind_rc env < 0
            then Inr (self\<lparr>b_state := NN_BLIBFABRIC_STATE_CLOSING\<rparr>,
                      [Usock_start ss_family (usock_start_rc env),
                       Usock_bind ss_family port (usock_bind_rc env),
                       Usock_stop])
            else if usock_listen_rc env < 0
            then Inr (self\<lparr>b_state := NN_BLIBFABRIC_STATE_CLOSING\<rparr>,
                      [Usock_start ss_family (usock_start_rc env),
                       Usock_bind ss_family port (usock_bind_rc env),
                       Usock_listen NN_BLIBFABRIC_BACKLOG (usock_listen_rc env),
                       Usock_stop])
            else
             (case nn_blibfabric_start_accepting env self of
                Inl e \<Rightarrow> Inl e
              | Inr (self', cs) \<Rightarrow>
                  Inr (self'\<lparr>b_state := NN_BLIBFABRIC_STATE_ACTIVE\<rparr>,
                       [Usock_start ss_family (usock_start_rc env),
                        Usock_bind ss_family port (usock_bind_rc env),
                        Usock_listen NN_BLIBFABRIC_BACKLOG (usock_listen_rc env)]
                       @ cs)))))"

text \<open>
  \<^verbatim>\<open>nn_blibfabric_handler\<close>. In the ACTIVE state the event is first matched by
  its source pointer against the connection being accepted; every other event must
  come from an accepted connection. \<^verbatim>\<open>nn_list_erase\<close> is the removal of the item.
\<close>

definition nn_blibfabric_handler ::
  "config \<Rightarrow> answers \<Rightarrow> nn_blibfabric \<Rightarrow> src \<Rightarrow> evtype \<Rightarrow> ptr option
     \<Rightarrow> error + (nn_blibfabric \<times> call list)" where
  "nn_blibfabric_handler cfg env self src type srcptr =
     (case b_state self of
        NN_BLIBFABRIC_STATE_IDLE \<Rightarrow>
          (case src of
             NN_FSM_ACTION \<Rightarrow>
               (case type of
                  NN_FSM_START \<Rightarrow> nn_blibfabric_start_listening cfg env self
                | _ \<Rightarrow> Inl Bad_action)
           | _ \<Rightarrow> Inl Bad_source)
      | NN_BLIBFABRIC_STATE_ACTIVE \<Rightarrow>
          (if srcptr = alibfabric self
           then (case type of
                   NN_ALIBFABRIC_ACCEPTED \<Rightarrow>
                     (case alibfabric self of
                        None \<Rightarrow> Inl Null_deref
                      | Some a \<Rightarrow>
                          nn_blibfabric_start_accepting env
                            (self\<lparr>alibfabrics := alibfabrics self @ [a],
                                  alibfabric := None\<rparr>))
                 | _ \<Rightarrow> Inl Bad_action)
           else if src \<noteq> SRC_ALIBFABRIC then Inl Assert_failed
           else (case type of
                   NN_ALIBFABRIC_ERROR \<Rightarrow>
                     (case srcptr of
                        None \<Rightarrow> Inl Null_deref
                      | Some c \<Rightarrow> Inr (self, [Alibfabric_stop c]))
                 | NN_ALIBFABRIC_STOPPED \<Rightarrow>
                     (case srcptr of
                        None \<Rightarrow> Inl Null_deref
                      | Some c \<Rightarrow>
                          Inr (self\<lparr>alibfabrics := remove1 c (alibfabrics self)\<rparr>,
                               [Alibfabric_term c, Free c]))
                 | _ \<Rightarrow> Inl Bad_action))
      | NN_BLIBFABRIC_STATE_CLOSING \<Rightarrow>
          (case src of
             SRC_USOCK \<Rightarrow>
               (case type of
                  NN_USOCK_SHUTDOWN \<Rightarrow> Inr (self, [])
                | NN_USOCK_STOPPED \<Rightarrow>
                    Inr (self\<lparr>b_state := NN_BLIBFABRIC_STATE_WAITING\<rparr>, [Backoff_start])
                | _ \<Rightarrow> Inl Bad_action)
           | _ \<Rightarrow> Inl Bad_source)
      | NN_BLIBFABRIC_STATE_WAITING \<Rightarrow>
          (case src of
             SRC_RECONNECT_TIMER \<Rightarrow>
               (case type of
                  NN_BACKOFF_TIMEOUT \<Rightarrow>
                    Inr (self\<lparr>b_state := NN_BLIBFABRIC_STATE_STOPPING_BACKOFF\<rparr>,
                         [Backoff_stop])
                | _ \<Rightarrow> Inl Bad_action)
           | _ \<Rightarrow> Inl Bad_source)
      | NN_BLIBFABRIC_STATE_STOPPING_BACKOFF \<Rightarrow>
          (case src of
             SRC_RECONNECT_TIMER \<Rightarrow>
               (case type of
                  NN_BACKOFF_STOPPED \<Rightarrow> nn_blibfabric_start_listening cfg env self
                | _ \<Rightarrow> Inl Bad_action)
           | _ \<Rightarrow> Inl Bad_source)
      | _ \<Rightarrow> Inl Bad_state)"

text \<open>
  The tail of \<^verbatim>\<open>nn_blibfabric_shutdown\<close> from the label
  \<^verbatim>\<open>alibfabrics_stopping\<close>: the endpoint reports itself stopped when the list of
  accepted connections is empty, and just returns otherwise.
\<close>

definition alibfabrics_stopping ::
  "nn_blibfabric \<Rightarrow> call list \<Rightarrow> error + (nn_blibfabric \<times> call list)" where
  "alibfabrics_stopping self cs =
     (if alibfabrics self = []
      then Inr (self\<lparr>b_state := NN_BLIBFABRIC_STATE_IDLE\<rparr>,
                cs @ [Fsm_stopped_noevent, Epbase_stopped])
      else Inr (self, cs))"

text \<open>
  \<^verbatim>\<open>nn_blibfabric_shutdown\<close> from its third \<^verbatim>\<open>if\<close> on: the STOPPING_USOCK
  block, the STOPPING_ALIBFABRICS block and the final \<^verbatim>\<open>nn_fsm_bad_action\<close>. The
  second argument is the list of calls made so far in this invocation.
\<close>

definition shutdown_usock ::
  "answers \<Rightarrow> nn_blibfabric \<Rightarrow> call list \<Rightarrow> src \<Rightarrow> evtype \<Rightarrow> ptr option
     \<Rightarrow> error + (nn_blibfabric \<times> call list)" where
  "shutdown_usock env self cs src type srcptr =
     (if b_state self = NN_BLIBFABRIC_STATE_STOPPING_USOCK
      then (if \<not> usock_isidle env then Inr (self, cs @ [Usock_isidle False])
            else alibfabrics_stopping
                   (self\<lparr>b_state := NN_BLIBFABRIC_STATE_STOPPING_ALIBFABRICS\<rparr>)
                   (cs @ Usock_isidle True # map Alibfabric_stop (alibfabrics self)))
      else if b_state self = NN_BLIBFABRIC_STATE_STOPPING_ALIBFABRICS
      then (if \<not> (src = SRC_ALIBFABRIC \<and> type = NN_ALIBFABRIC_STOPPED)
            then Inl Assert_failed
            else case srcptr of
              None \<Rightarrow> Inl Null_deref
            | Some c \<Rightarrow>
                alibfabrics_stopping
                  (self\<lparr>alibfabrics := remove1 c (alibfabrics self)\<rparr>)
                  (cs @ [Alibfabric_term c, Free c]))
      else Inl Bad_action)"

text \<open>
  \<^verbatim>\<open>nn_blibfabric_shutdown\<close> from its second \<^verbatim>\<open>if\<close> on: the
  STOPPING_ALIBFABRIC block, which returns while the connection being accepted is not
  idle, and then falls through.
\<close>

definition shutdown_alibfabric ::
  "answers \<Rightarrow> nn_blibfabric \<Rightarrow> call list \<Rightarrow> src \<Rightarrow> evtype \<Rightarrow> ptr option
     \<Rightarrow> error + (nn_blibfabric \<times> call list)" where
  "shutdown_alibfabric env self cs src type srcptr =
     (if b_state self = NN_BLIBFABRIC_STATE_STOPPING_ALIBFABRIC
      then (case alibfabric self of
              None \<Rightarrow> Inl Null_deref
            | Some a \<Rightarrow>
                if \<not> alibfabric_isidle env
                then Inr (self, cs @ [Alibfabric_isidle a False])
                else shutdown_usock env
                       (self\<lparr>alibfabric := None,
                             b_state := NN_BLIBFABRIC_STATE_STOPPING_USOCK\<rparr>)
                       (cs @ [Alibfabric_isidle a True, Alibfabric_term a, Free a,
                              Usock_stop])
                       src type srcptr)
      else shutdown_usock env self cs src type srcptr)"

text \<open>\<^verbatim>\<open>nn_blibfabric_shutdown\<close>: the stop request, then the blocks above.\<close>

definition nn_blibfabric_shutdown ::
  "answers \<Rightarrow> nn_blibfabric \<Rightarrow> src \<Rightarrow> evtype \<Rightarrow> ptr option
     \<Rightarrow> error + (nn_blibfabric \<times> call list)" where
  "nn_blibfabric_shutdown env self src type srcptr =
     (if src = NN_FSM_ACTION \<and> type = NN_FSM_STOP
      then (case alibfabric self of
              Some a \<Rightarrow>
                shutdown_alibfabric env
                  (self\<lparr>b_state := NN_BLIBFABRIC_STATE_STOPPING_ALIBFABRIC\<rparr>)
                  [Backoff_stop, Alibfabric_stop a] src type srcptr
            | None \<Rightarrow>
                shutdown_alibfabric env
                  (self\<lparr>b_state := NN_BLIBFABRIC_STATE_STOPPING_USOCK\<rparr>)
                  [Backoff_stop] src type srcptr)
      else shutdown_alibfabric env self [] src type srcptr)"

text \<open>
  \<^verbatim>\<open>nn_blibfabric_destroy\<close>: the calls made and, when an assertion fails, the
  abort. \<^verbatim>\<open>nn_list_term\<close> stands between the two assertions.
\<close>

definition nn_blibfabric_destroy :: "nn_blibfabric \<Rightarrow> call list \<times> error option" where
  "nn_blibfabric_destroy self =
     (if b_state self \<noteq> NN_BLIBFABRIC_STATE_IDLE then ([], Some Assert_failed)
      else if alibfabric self \<noteq> None then ([List_term], Some Assert_failed)
      else ([List_term, Usock_term, Backoff_term, Epbase_term, Fsm_term, Free_self],
            None))"

text \<open>
  An event as it reaches an entry point: the collaborators' answers during that
  invocation, the source, the type and the source pointer. \<open>b_run\<close> feeds a list of
  events to the handler, \<open>b_run_shutdown\<close> to the shutdown function; both stop at the
  first abort and collect the calls made.
\<close>

type_synonym event = "answers \<times> src \<times> evtype \<times> ptr option"

fun b_run ::
  "config \<Rightarrow> nn_blibfabric \<Rightarrow> event list \<Rightarrow> error + (nn_blibfabric \<times> call list)" where
  "b_run cfg self [] = Inr (self, [])"
| "b_run cfg self ((env, src, type, srcptr) # evs) =
     (case nn_blibfabric_handler cfg env self src type srcptr of
        Inl e \<Rightarrow> Inl e
      | Inr (self', cs) \<Rightarrow>
         (case b_run cfg self' evs of
            Inl e \<Rightarrow> Inl e
          | Inr (self'', cs') \<Rightarrow> Inr (self'', cs @ cs')))"

fun b_run_shutdown ::
  "nn_blibfabric \<Rightarrow> event list \<Rightarrow> error + (nn_blibfabric \<times> call list)" where
  "b_run_shutdown self [] = Inr (self, [])"
| "b_run_shutdown self ((env, src, type, srcptr) # evs) =
     (case nn_blibfabric_shutdown env self src type srcptr of
        Inl e \<Rightarrow> Inl e
      | Inr (self', cs) \<Rightarrow>
         (case b_run_shutdown self' evs of
            Inl e \<Rightarrow> Inl e
          | Inr (self'', cs') \<Rightarrow> Inr (self'', cs @ cs')))"

section \<open>The connector endpoint\<close>

datatype cstate =
    NN_CLIBFABRIC_STATE_IDLE
  | NN_CLIBFABRIC_STATE_RESOLVING
  | NN_CLIBFABRIC_STATE_STOPPING_DNS
  | NN_CLIBFABRIC_STATE_CONNECTING
  | NN_CLIBFABRIC_STATE_ACTIVE
  | NN_CLIBFABRIC_STATE_STOPPING_SLIBFABRIC
  | NN_CLIBFABRIC_STATE_STOPPING_USOCK
  | NN_CLIBFABRIC_STATE_WAITING
  | NN_CLIBFABRIC_STATE_STOPPING_BACKOFF
  | NN_CLIBFABRIC_STATE_STOPPING_SLIBFABRIC_FINAL
  | NN_CLIBFABRIC_STATE_STOPPING

text \<open>
  \<^verbatim>\<open>struct nn_clibfabric\<close>: of its fields only the state is written by this file;
  the resolver's result slot is read from the collaborators' answers.
\<close>

record nn_clibfabric =
  c_state :: cstate

text \<open>\<^verbatim>\<open>nn_clibfabric_create\<close>, with the arguments and result of the listener's.\<close>

definition nn_clibfabric_create ::
  "config \<Rightarrow> ptr option \<Rightarrow> error + (int \<times> call list \<times> nn_clibfabric option)" where
  "nn_clibfabric_create cfg mem =
     (case mem of
        None \<Rightarrow> Inl Alloc_failed
      | Some self \<Rightarrow>
         (let semicolon = strchr (addr cfg) CHR '';'';
              hostname = (case semicolon of Some i \<Rightarrow> Suc i | None \<Rightarrow> 0)
          in case strrchr (addr cfg) CHR '':'' of
            None \<Rightarrow> Inr (- EINVAL, [Epbase_init, Epbase_term], None)
          | Some colon \<Rightarrow>
              if port_resolve cfg (drop (Suc colon) (addr cfg))
                   (int (length (addr cfg)) - int colon - 1) < 0
              then Inr (- EINVAL, [Epbase_init, Epbase_term], None)
              else if dns_check_hostname cfg (drop hostname (addr cfg))
                        (int colon - int hostname) < 0 \<and>
                      literal_resolve cfg (drop hostname (addr cfg))
                        (int colon - int hostname) (ipv4only cfg) < 0
              then Inr (- EINVAL, [Epbase_init, Epbase_term], None)
              else if (case semicolon of
                         Some i \<Rightarrow>
                           fst (iface_resolve cfg (addr cfg) (int i) (ipv4only cfg)) < 0
                       | None \<Rightarrow> False)
              then Inr (- ENODEV, [Epbase_init, Epbase_term], None)
              else Inr (0,
                     [Epbase_init, Fsm_init_root, Usock_init,
                      Backoff_init (reconnect_ivl cfg)
                        (if reconnect_ivl_max cfg = 0 then reconnect_ivl cfg
                         else reconnect_ivl_max cfg),
                      Slibfabric_init, Dns_init, Fsm_start],
                     Some \<lparr>c_state = NN_CLIBFABRIC_STATE_IDLE\<rparr>)))"

text \<open>\<^verbatim>\<open>nn_clibfabric_start_resolving\<close>: the host part goes to the resolver.\<close>

definition nn_clibfabric_start_resolving ::
  "config \<Rightarrow> nn_clibfabric \<Rightarrow> error + (nn_clibfabric \<times> call list)" where
  "nn_clibfabric_start_resolving cfg self =
     (let begin = (case strchr (addr cfg) CHR '';'' of None \<Rightarrow> 0 | Some i \<Rightarrow> Suc i)
      in case strrchr (addr cfg) CHR '':'' of
        None \<Rightarrow> Inl Assert_failed
      | Some end \<Rightarrow>
          Inr (self\<lparr>c_state := NN_CLIBFABRIC_STATE_RESOLVING\<rparr>,
               [Dns_start (drop begin (addr cfg)) (int end - int begin) (ipv4only cfg)]))"

text \<open>
  \<^verbatim>\<open>nn_clibfabric_start_connecting\<close>. The remote address is the resolver's
  result; the local one is the interface before the semicolon, or the wildcard. The
  three early returns are the failure of the local interface, of opening the socket
  and of binding it.
\<close>

definition nn_clibfabric_start_connecting ::
  "config \<Rightarrow> answers \<Rightarrow> nn_clibfabric \<Rightarrow> error + (nn_clibfabric \<times> call list)" where
  "nn_clibfabric_start_connecting cfg env self =
     (case strrchr (addr cfg) CHR '':'' of
        None \<Rightarrow> Inl Null_deref
      | Some colon \<Rightarrow>
         (let rc = port_resolve cfg (drop (Suc colon) (addr cfg))
                     (int (length (addr cfg)) - int colon - 1)
          in if \<not> rc > 0 then Inl Assert_failed
          else
           (let port = port_of rc;
                (rc, local_family) =
                  (case strchr (addr cfg) CHR '';'' of
                     Some semicolon \<Rightarrow>
                       iface_resolve cfg (addr cfg) (int semicolon) (ipv4only cfg)
                   | None \<Rightarrow> iface_resolve cfg ''*'' 1 (ipv4only cfg))
            in if rc < 0
            then Inr (self\<lparr>c_state := NN_CLIBFABRIC_STATE_WAITING\<rparr>, [Backoff_start])
            else
             (let remote_family = dns_result_family env
              in if remote_family \<noteq> AF_INET \<and> remote_family \<noteq> AF_INET6
              then Inl Assert_failed
              else if usock_start_rc env < 0
              then Inr (self\<lparr>c_state := NN_CLIBFABRIC_STATE_WAITING\<rparr>,
                        [Usock_start remote_family (usock_start_rc env), Backoff_start])
              else if usock_bind_rc env \<noteq> 0
              then Inr (self\<lparr>c_state := NN_CLIBFABRIC_STATE_WAITING\<rparr>,
                        [Usock_start remote_family (usock_start_rc env),
                         Usock_setsockopt SO_SNDBUF (sndbuf cfg),
                         Usock_setsockopt SO_RCVBUF (rcvbuf cfg),
                         Usock_bind local_family 0 (usock_bind_rc env),
                         Backoff_start])
              else Inr (self\<lparr>c_state := NN_CLIBFABRIC_STATE_CONNECTING\<rparr>,
                        [Usock_start remote_family (usock_start_rc env),
                         Usock_setsockopt SO_SNDBUF (sndbuf cfg),
                         Usock_setsockopt SO_RCVBUF (rcvbuf cfg),
                         Usock_bind local_family 0 (usock_bind_rc env),
                         Usock_connect remote_family port,
                         Epbase_stat_increment NN_STAT_INPROGRESS_CONNECTIONS 1])))))"

text \<open>\<^verbatim>\<open>nn_clibfabric_handler\<close>, one case per state, in the order of the source.\<close>

definition nn_clibfabric_handler ::
  "config \<Rightarrow> answers \<Rightarrow> nn_clibfabric \<Rightarrow> src \<Rightarrow> evtype
     \<Rightarrow> error + (nn_clibfabric \<times> call list)" where
  "nn_clibfabric_handler cfg env self src type =
     (case c_state self of
        NN_CLIBFABRIC_STATE_IDLE \<Rightarrow>
          (case src of
             NN_FSM_ACTION \<Rightarrow>
               (case type of
                  NN_FSM_START \<Rightarrow> nn_clibfabric_start_resolving cfg self
                | _ \<Rightarrow> Inl Bad_action)
           | _ \<Rightarrow> Inl Bad_source)
      | NN_CLIBFABRIC_STATE_RESOLVING \<Rightarrow>
          (case src of
             SRC_DNS \<Rightarrow>
               (case type of
                  NN_DNS_DONE \<Rightarrow>
                    Inr (self\<lparr>c_state := NN_CLIBFABRIC_STATE_STOPPING_DNS\<rparr>, [Dns_stop])
                | _ \<Rightarrow> Inl Bad_action)
           | _ \<Rightarrow> Inl Bad_source)
      | NN_CLIBFABRIC_STATE_STOPPING_DNS \<Rightarrow>
          (case src of
             SRC_DNS \<Rightarrow>
               (case type of
                  NN_DNS_STOPPED \<Rightarrow>
                    if dns_result_error env = 0
                    then nn_clibfabric_start_connecting cfg env self
                    else Inr (self\<lparr>c_state := NN_CLIBFABRIC_STATE_WAITING\<rparr>,
                              [Backoff_start])
                | _ \<Rightarrow> Inl Bad_action)
           | _ \<Rightarrow> Inl Bad_source)
      | NN_CLIBFABRIC_STATE_CONNECTING \<Rightarrow>
          (case src of
             SRC_USOCK \<Rightarrow>
               (case type of
                  NN_USOCK_CONNECTED \<Rightarrow>
                    Inr (self\<lparr>c_state := NN_CLIBFABRIC_STATE_ACTIVE\<rparr>,
                         [Slibfabric_start,
                          Epbase_stat_increment NN_STAT_INPROGRESS_CONNECTIONS (- 1),
                          Epbase_stat_increment NN_STAT_ESTABLISHED_CONNECTIONS 1,
                          Epbase_clear_error])
                | NN_USOCK_ERROR \<Rightarrow>
                    Inr (self\<lparr>c_state := NN_CLIBFABRIC_STATE_STOPPING_USOCK\<rparr>,
                         [Epbase_set_error (usock_geterrno env),
                          Usock_stop,
                          Epbase_stat_increment NN_STAT_INPROGRESS_CONNECTIONS (- 1),
                          Epbase_stat_increment NN_STAT_CONNECT_ERRORS 1])
                | _ \<Rightarrow> Inl Bad_action)
           | _ \<Rightarrow> Inl Bad_source)
      | NN_CLIBFABRIC_STATE_ACTIVE \<Rightarrow>
          (case src of
             SRC_SLIBFABRIC \<Rightarrow>
               (case type of
                  NN_SLIBFABRIC_ERROR \<Rightarrow>
                    Inr (self\<lparr>c_state := NN_CLIBFABRIC_STATE_STOPPING_SLIBFABRIC\<rparr>,
                         [Slibfabric_stop,
                          Epbase_stat_increment NN_STAT_BROKEN_CONNECTIONS 1])
                | _ \<Rightarrow> Inl Bad_action)
           | _ \<Rightarrow> Inl Bad_source)
      | NN_CLIBFABRIC_STATE_STOPPING_SLIBFABRIC \<Rightarrow>
          (case src of
             SRC_SLIBFABRIC \<Rightarrow>
               (case type of
                  NN_USOCK_SHUTDOWN \<Rightarrow> Inr (self, [])
                | NN_SLIBFABRIC_STOPPED \<Rightarrow>
                    Inr (self\<lparr>c_state := NN_CLIBFABRIC_STATE_STOPPING_USOCK\<rparr>,
                         [Usock_stop])
                | _ \<Rightarrow> Inl Bad_action)
           | _ \<Rightarrow> Inl Bad_source)
      | NN_CLIBFABRIC_STATE_STOPPING_USOCK \<Rightarrow>
          (case src of
             SRC_USOCK \<Rightarrow>
               (case type of
                  NN_USOCK_SHUTDOWN \<Rightarrow> Inr (self, [])
                | NN_USOCK_STOPPED \<Rightarrow>
                    Inr (self\<lparr>c_state := NN_CLIBFABRIC_STATE_WAITING\<rparr>, [Backoff_start])
                | _ \<Rightarrow> Inl Bad_action)
           | _ \<Rightarrow> Inl Bad_source)
      | NN_CLIBFABRIC_STATE_WAITING \<Rightarrow>
          (case src of
             SRC_RECONNECT_TIMER \<Rightarrow>
               (case type of
                  NN_BACKOFF_TIMEOUT \<Rightarrow>
                    Inr (self\<lparr>c_state := NN_CLIBFABRIC_STATE_STOPPING_BACKOFF\<rparr>,
                         [Backoff_stop])
                | _ \<Rightarrow> Inl Bad_action)
           | _ \<Rightarrow> Inl Bad_source)
      | NN_CLIBFABRIC_STATE_STOPPING_BACKOFF \<Rightarrow>
          (case src of
             SRC_RECONNECT_TIMER \<Rightarrow>
               (case type of
                  NN_BACKOFF_STOPPED \<Rightarrow> nn_clibfabric_start_resolving cfg self
                | _ \<Rightarrow> Inl Bad_action)
           | _ \<Rightarrow> Inl Bad_source)
      | _ \<Rightarrow> Inl Bad_state)"

text \<open>\<open>c_run\<close> feeds a list of events to the connector's handler, as \<open>b_run\<close> does.\<close>

fun c_run ::
  "config \<Rightarrow> nn_clibfabric \<Rightarrow> (answers \<times> src \<times> evtype) list
     \<Rightarrow> error + (nn_clibfabric \<times> call list)" where
  "c_run cfg self [] = Inr (self, [])"
| "c_run cfg self ((env, src, type) # evs) =
     (case nn_clibfabric_handler cfg env self src type of
        Inl e \<Rightarrow> Inl e
      | Inr (self', cs) \<Rightarrow>
         (case c_run cfg self' evs of
            Inl e \<Rightarrow> Inl e
          | Inr (self'', cs') \<Rightarrow> Inr (self'', cs @ cs')))"

section \<open>An example configuration and the vocabulary of the properties\<close>

text \<open>
  A concrete configuration for evaluating the functions above: the port helper accepts
  the text \<^verbatim>\<open>5555\<close> only, the interface helper accepts \<^verbatim>\<open>*\<close> only (an IPv4
  wildcard), every non-empty host name passes the syntax check and nothing is an
  address literal.
\<close>

definition example_config :: "string \<Rightarrow> int \<Rightarrow> int \<Rightarrow> config" where
  "example_config a ivl ivl_max =
     \<lparr>addr = a, ipv4only = 1, reconnect_ivl = ivl, reconnect_ivl_max = ivl_max,
      sndbuf = 131072, rcvbuf = 131072,
      port_resolve = (\<lambda>s n. if take (nat n) s = ''5555'' then 5555 else - EINVAL),
      iface_resolve =
        (\<lambda>s n v. if take (nat n) s = ''*'' then (0, AF_INET) else (- ENODEV, AF_OTHER)),
      dns_check_hostname = (\<lambda>s n. if 0 < n then 0 else - EINVAL),
      literal_resolve = (\<lambda>s n v. - EINVAL)\<rparr>"

text \<open>
  Collaborator answers for evaluation: every call succeeds, the resolver found an IPv4
  address, \<^verbatim>\<open>nn_alloc\<close> returns the given pointer and everything asked is idle.
\<close>

definition all_fine :: "ptr \<Rightarrow> answers" where
  "all_fine p =
     \<lparr>usock_start_rc = 0, usock_bind_rc = 0, usock_listen_rc = 0, alloc = Some p,
      alibfabric_isidle = True, usock_isidle = True, usock_geterrno = 0,
      dns_result_error = 0, dns_result_family = AF_INET\<rparr>"

text \<open>
  Order in a list of calls: \<open>precedes P Q cs\<close> holds when no call satisfying \<open>Q\<close>
  occurs in \<open>cs\<close> before the first call satisfying \<open>P\<close> (and none at all when no
  call satisfies \<open>P\<close>).
\<close>

fun precedes :: "(call \<Rightarrow> bool) \<Rightarrow> (call \<Rightarrow> bool) \<Rightarrow> call list \<Rightarrow> bool" where
  "precedes P Q [] = True"
| "precedes P Q (c # cs) = (if P c then True else if Q c then False else precedes P Q cs)"

fun is_dns_start :: "call \<Rightarrow> bool" where
  "is_dns_start (Dns_start h n v) = True"
| "is_dns_start c = False"

fun is_usock_start :: "call \<Rightarrow> bool" where
  "is_usock_start (Usock_start f rc) = True"
| "is_usock_start c = False"

fun is_usock_connect :: "call \<Rightarrow> bool" where
  "is_usock_connect (Usock_connect f p) = True"
| "is_usock_connect c = False"

text \<open>
  The calls by which \<^verbatim>\<open>nn_blibfabric_destroy\<close> releases what the endpoint owns.
\<close>

definition releases :: "call set" where
  "releases = {Usock_term, Backoff_term, Epbase_term, Fsm_term, Free_self}"

text \<open>
  The shape of a listener between two events of its handler: either it is ACTIVE, a
  connection is being accepted and that connection is not among the accepted ones; or
  it is in one of the states before ACTIVE, nothing is being accepted and nothing has
  been accepted. No accepted connection is listed twice.
\<close>

definition b_inv :: "nn_blibfabric \<Rightarrow> bool" where
  "b_inv self =
     (distinct (alibfabrics self) \<and>
      (case alibfabric self of
         Some a \<Rightarrow>
           b_state self = NN_BLIBFABRIC_STATE_ACTIVE \<and> a \<notin> set (alibfabrics self)
       | None \<Rightarrow>
           b_state self \<in> {NN_BLIBFABRIC_STATE_IDLE, NN_BLIBFABRIC_STATE_CLOSING,
                            NN_BLIBFABRIC_STATE_WAITING,
                            NN_BLIBFABRIC_STATE_STOPPING_BACKOFF} \<and>
           alibfabrics self = []))"

text \<open>\<^verbatim>\<open>nn_alloc\<close> never returns a pointer that is still in use.\<close>

definition alloc_fresh :: "answers \<Rightarrow> nn_blibfabric \<Rightarrow> bool" where
  "alloc_fresh env self =
     (\<forall>p. alloc env = Some p \<longrightarrow> alibfabric self \<noteq> Some p \<and> p \<notin> set (alibfabrics self))"

text \<open>The arguments of every \<^verbatim>\<open>nn_backoff_init\<close> among a list of calls.\<close>

fun backoff_inits :: "call list \<Rightarrow> (int \<times> int) list" where
  "backoff_inits [] = []"
| "backoff_inits (Backoff_init b m # cs) = (b, m) # backoff_inits cs"
| "backoff_inits (c # cs) = backoff_inits cs"


text \<open>
  The address faults the creation functions look for. The port segment is what follows
  the last colon. The listener's segment before that colon is an interface, at fault
  when \<^verbatim>\<open>nn_iface_resolve\<close> fails on it. The connector's host segment lies between
  the semicolon (or the start) and the last colon; it is malformed when it is neither
  a well-formed host name (\<^verbatim>\<open>nn_dns_check_hostname\<close>) nor an address literal
  (\<^verbatim>\<open>nn_literal_resolve\<close>). The connector's interface segment, when there is a
  semicolon, lies before the semicolon.
\<close>

definition port_segment_bad :: "config \<Rightarrow> bool" where
  "port_segment_bad cfg =
     (case strrchr (addr cfg) CHR '':'' of
        None \<Rightarrow> True
      | Some colon \<Rightarrow>
          port_resolve cfg (drop (Suc colon) (addr cfg))
            (int (length (addr cfg)) - int (Suc colon)) < 0)"

definition b_iface_unresolvable :: "config \<Rightarrow> bool" where
  "b_iface_unresolvable cfg =
     (case strrchr (addr cfg) CHR '':'' of
        None \<Rightarrow> False
      | Some colon \<Rightarrow>
          fst (iface_resolve cfg (addr cfg) (int colon) (ipv4only cfg)) < 0)"

definition c_host_malformed :: "config \<Rightarrow> bool" where
  "c_host_malformed cfg =
     (case strrchr (addr cfg) CHR '':'' of
        None \<Rightarrow> False
      | Some colon \<Rightarrow>
         (let hostname = (case strchr (addr cfg) CHR '';'' of Some i \<Rightarrow> Suc i | None \<Rightarrow> 0)
          in dns_check_hostname cfg (drop hostname (addr cfg))
               (int colon - int hostname) < 0 \<and>
             literal_resolve cfg (drop hostname (addr cfg))
               (int colon - int hostname) (ipv4only cfg) < 0))"

definition c_iface_unresolvable :: "config \<Rightarrow> bool" where
  "c_iface_unresolvable cfg =
     (case strchr (addr cfg) CHR '';'' of
        None \<Rightarrow> False
      | Some semicolon \<Rightarrow>
          fst (iface_resolve cfg (addr cfg) (int semicolon) (ipv4only cfg)) < 0)"

text \<open>
  Two stages of the listener's shutdown: \<open>retiring a\<close>, while the connection \<open>a\<close>
  being accepted has not been released yet, and \<open>socket_waiting\<close>, once it has been
  and the endpoint waits for the listening socket to be idle.
\<close>

definition retiring :: "ptr \<Rightarrow> nn_blibfabric \<Rightarrow> bool" where
  "retiring a s =
     (alibfabric s = Some a \<and>
      (b_state s = NN_BLIBFABRIC_STATE_ACTIVE \<or>
       b_state s = NN_BLIBFABRIC_STATE_STOPPING_ALIBFABRIC))"

definition socket_waiting :: "nn_blibfabric \<Rightarrow> bool" where
  "socket_waiting s =
     (alibfabric s = None \<and> b_state s = NN_BLIBFABRIC_STATE_STOPPING_USOCK)"

section \<open>Creation\<close>

text \<open>Both creation functions, read as a decision on the address faults.\<close>

lemma b_create_cases:
  "nn_blibfabric_create cfg (Some p) =
     (if port_segment_bad cfg then Inr (- EINVAL, [Epbase_init, Epbase_term], None)
      else if b_iface_unresolvable cfg then Inr (- ENODEV, [Epbase_init, Epbase_term], None)
      else Inr (0,
             [Epbase_init, Fsm_init_root,
              Backoff_init (reconnect_ivl cfg)
                (if reconnect_ivl_max cfg = 0 then reconnect_ivl cfg
                 else reconnect_ivl_max cfg),
              Usock_init, List_init, Fsm_start],
             Some \<lparr>b_state = NN_BLIBFABRIC_STATE_IDLE, alibfabric = None,
                   alibfabrics = []\<rparr>))"
  by (simp add: nn_blibfabric_create_def port_segment_bad_def b_iface_unresolvable_def
        Let_def split: option.splits)

lemma c_create_cases:
  "nn_clibfabric_create cfg (Some p) =
     (if port_segment_bad cfg \<or> c_host_malformed cfg
      then Inr (- EINVAL, [Epbase_init, Epbase_term], None)
      else if c_iface_unresolvable cfg
      then Inr (- ENODEV, [Epbase_init, Epbase_term], None)
      else Inr (0,
             [Epbase_init, Fsm_init_root, Usock_init,
              Backoff_init (reconnect_ivl cfg)
                (if reconnect_ivl_max cfg = 0 then reconnect_ivl cfg
                 else reconnect_ivl_max cfg),
              Slibfabric_init, Dns_init, Fsm_start],
             Some \<lparr>c_state = NN_CLIBFABRIC_STATE_IDLE\<rparr>))"
  by (simp add: nn_clibfabric_create_def port_segment_bad_def c_host_malformed_def
        c_iface_unresolvable_def Let_def diff_add_eq_diff_diff_swap split: option.splits)

lemma create_without_memory:
  "nn_blibfabric_create cfg None = Inl Alloc_failed"
  "nn_clibfabric_create cfg None = Inl Alloc_failed"
  by (simp_all add: nn_blibfabric_create_def nn_clibfabric_create_def)

text \<open>The example addresses, as the address faults see them.\<close>

lemma example_faults:
  "\<not> port_segment_bad (example_config ''*:5555'' i m)"
  "\<not> b_iface_unresolvable (example_config ''*:5555'' i m)"
  "\<not> c_host_malformed (example_config ''*:5555'' i m)"
  "\<not> c_iface_unresolvable (example_config ''*:5555'' i m)"
  "port_segment_bad (example_config ''*:http'' i m)"
  "\<not> port_segment_bad (example_config ''eth9;peer:5555'' i m)"
  "\<not> c_host_malformed (example_config ''eth9;peer:5555'' i m)"
  "c_iface_unresolvable (example_config ''eth9;peer:5555'' i m)"
  "b_iface_unresolvable (example_config ''eth9;peer:5555'' i m)"
  "\<not> port_segment_bad (example_config '':5555'' i m)"
  "c_host_malformed (example_config '':5555'' i m)"
  by (simp_all add: port_segment_bad_def b_iface_unresolvable_def c_host_malformed_def
        c_iface_unresolvable_def example_config_def strrchr_def strchr_def EINVAL_def
        ENODEV_def)

lemma example_options:
  "reconnect_ivl (example_config a i m) = i"
  "reconnect_ivl_max (example_config a i m) = m"
  by (simp_all add: example_config_def)

text \<open>
  Claim C7. Whenever either creation function succeeds it initialises the backoff timer
  exactly once, with the configured base interval and with a maximum that is the base
  interval when the configured maximum is zero and the configured maximum otherwise;
  when creation fails the timer is not initialised at all.
\<close>

theorem backoff_max_zero_is_base:
  "(nn_blibfabric_create cfg mem = Inr (rc, cs, obj) \<longrightarrow>
      backoff_inits cs =
        (if rc = 0
         then [(reconnect_ivl cfg,
                if reconnect_ivl_max cfg = 0 then reconnect_ivl cfg
                else reconnect_ivl_max cfg)]
         else [])) \<and>
   (nn_clibfabric_create cfg mem = Inr (rc', cs', obj') \<longrightarrow>
      backoff_inits cs' =
        (if rc' = 0
         then [(reconnect_ivl cfg,
                if reconnect_ivl_max cfg = 0 then reconnect_ivl cfg
                else reconnect_ivl_max cfg)]
         else []))"
proof (cases mem)
  case None
  then show ?thesis by (simp add: create_without_memory)
next
  case (Some p)
  have b: "nn_blibfabric_create cfg (Some p) = Inr (rc, cs, obj) \<longrightarrow>
      backoff_inits cs =
        (if rc = 0
         then [(reconnect_ivl cfg,
                if reconnect_ivl_max cfg = 0 then reconnect_ivl cfg
                else reconnect_ivl_max cfg)]
         else [])"
    by (auto simp: b_create_cases EINVAL_def ENODEV_def split: if_splits)
  have c: "nn_clibfabric_create cfg (Some p) = Inr (rc', cs', obj') \<longrightarrow>
      backoff_inits cs' =
        (if rc' = 0
         then [(reconnect_ivl cfg,
                if reconnect_ivl_max cfg = 0 then reconnect_ivl cfg
                else reconnect_ivl_max cfg)]
         else [])"
    by (auto simp: c_create_cases EINVAL_def ENODEV_def split: if_splits)
  from b c Some show ?thesis by simp
qed

theorem backoff_max_zero_is_base_witness:
  "nn_blibfabric_create (example_config ''*:5555'' 100 0) (Some 1) =
     Inr (0, [Epbase_init, Fsm_init_root, Backoff_init 100 100, Usock_init, List_init,
              Fsm_start],
          Some \<lparr>b_state = NN_BLIBFABRIC_STATE_IDLE, alibfabric = None, alibfabrics = []\<rparr>) \<and>
   backoff_inits [Epbase_init, Fsm_init_root, Backoff_init 100 100, Usock_init, List_init,
                  Fsm_start] = [(100, 100)] \<and>
   nn_clibfabric_create (example_config ''*:5555'' 100 700) (Some 1) =
     Inr (0, [Epbase_init, Fsm_init_root, Usock_init, Backoff_init 100 700,
              Slibfabric_init, Dns_init, Fsm_start],
          Some \<lparr>c_state = NN_CLIBFABRIC_STATE_IDLE\<rparr>) \<and>
   backoff_inits [Epbase_init, Fsm_init_root, Usock_init, Backoff_init 100 700,
                  Slibfabric_init, Dns_init, Fsm_start] = [(100, 700)]"
  using
    backoff_max_zero_is_base [of "example_config ''*:5555'' 100 0" "Some 1" 0
      "[Epbase_init, Fsm_init_root, Backoff_init 100 100, Usock_init, List_init, Fsm_start]"
      "Some \<lparr>b_state = NN_BLIBFABRIC_STATE_IDLE, alibfabric = None, alibfabrics = []\<rparr>"]
    backoff_max_zero_is_base [of "example_config ''*:5555'' 100 700" "Some 1" _ _ _ 0
      "[Epbase_init, Fsm_init_root, Usock_init, Backoff_init 100 700, Slibfabric_init,
        Dns_init, Fsm_start]"
      "Some \<lparr>c_state = NN_CLIBFABRIC_STATE_IDLE\<rparr>"]
  by (simp add: b_create_cases c_create_cases example_faults example_options)

text \<open>
  Claim C9 as stated fails for the connector when the host segment is a well-formed
  name that cannot be resolved. Creation for \<^verbatim>\<open>nonexistent.invalid:5555\<close>, a host
  that is no address literal, returns 0 and starts the state machine; the failure
  shows only later, when the resolver has stopped with an error in its result and the
  endpoint starts the backoff timer and waits.
\<close>

theorem unresolvable_host_passes_creation:
  "literal_resolve (example_config ''nonexistent.invalid:5555'' 100 0)
     ''nonexistent.invalid:5555'' 19 1 < 0 \<and>
   nn_clibfabric_create (example_config ''nonexistent.invalid:5555'' 100 0) (Some 1) =
     Inr (0, [Epbase_init, Fsm_init_root, Usock_init, Backoff_init 100 100,
              Slibfabric_init, Dns_init, Fsm_start],
          Some \<lparr>c_state = NN_CLIBFABRIC_STATE_IDLE\<rparr>) \<and>
   c_run (example_config ''nonexistent.invalid:5555'' 100 0)
     \<lparr>c_state = NN_CLIBFABRIC_STATE_IDLE\<rparr>
     [(all_fine 1, NN_FSM_ACTION, NN_FSM_START),
      (all_fine 1, SRC_DNS, NN_DNS_DONE),
      ((all_fine 1)\<lparr>dns_result_error := - 2\<rparr>, SRC_DNS, NN_DNS_STOPPED)] =
     Inr (\<lparr>c_state = NN_CLIBFABRIC_STATE_WAITING\<rparr>,
          [Dns_start ''nonexistent.invalid:5555'' 19 1, Dns_stop, Backoff_start])"
  by (simp add: nn_clibfabric_create_def nn_clibfabric_handler_def
        nn_clibfabric_start_resolving_def example_config_def all_fine_def
        strrchr_def strchr_def EINVAL_def ENODEV_def)

text \<open>
  Claim C9, amended. If the port segment of the address is absent or invalid, or the
  connector's host segment is malformed (neither a well-formed host name nor an
  address literal), or the interface segment (the listener's segment before the port,
  the connector's segment before the semicolon) cannot be resolved, the creation
  function returns \<open>- EINVAL\<close> or \<open>- ENODEV\<close> (a negative status), has terminated
  the endpoint base, hands out no object and has not started the state machine. In
  every return of either function the state machine has been started exactly when the
  status is zero, and the status is zero exactly when the address has none of these
  faults. Whether a well-formed host name can be looked up is not decided at creation.
\<close>

theorem create_failure_is_synchronous:
  "(port_segment_bad cfg \<or> b_iface_unresolvable cfg \<longrightarrow>
      (\<exists>rc cs. nn_blibfabric_create cfg (Some p) = Inr (rc, cs, None) \<and>
         (rc = - EINVAL \<or> rc = - ENODEV) \<and> rc < 0 \<and>
         Epbase_term \<in> set cs \<and> Fsm_start \<notin> set cs)) \<and>
   (port_segment_bad cfg \<or> c_host_malformed cfg \<or> c_iface_unresolvable cfg \<longrightarrow>
      (\<exists>rc cs. nn_clibfabric_create cfg (Some p) = Inr (rc, cs, None) \<and>
         (rc = - EINVAL \<or> rc = - ENODEV) \<and> rc < 0 \<and>
         Epbase_term \<in> set cs \<and> Fsm_start \<notin> set cs)) \<and>
   (nn_blibfabric_create cfg mem = Inr (rc1, cs1, obj1) \<longrightarrow>
      (Fsm_start \<in> set cs1 \<longleftrightarrow> rc1 = 0) \<and> (rc1 = 0 \<longleftrightarrow> obj1 \<noteq> None) \<and>
      (rc1 = 0 \<longleftrightarrow> \<not> port_segment_bad cfg \<and> \<not> b_iface_unresolvable cfg)) \<and>
   (nn_clibfabric_create cfg mem = Inr (rc2, cs2, obj2) \<longrightarrow>
      (Fsm_start \<in> set cs2 \<longleftrightarrow> rc2 = 0) \<and> (rc2 = 0 \<longleftrightarrow> obj2 \<noteq> None) \<and>
      (rc2 = 0 \<longleftrightarrow>
         \<not> port_segment_bad cfg \<and> \<not> c_host_malformed cfg \<and>
         \<not> c_iface_unresolvable cfg))"
proof -
  have b1: "port_segment_bad cfg \<or> b_iface_unresolvable cfg \<longrightarrow>
      (\<exists>rc cs. nn_blibfabric_create cfg (Some p) = Inr (rc, cs, None) \<and>
         (rc = - EINVAL \<or> rc = - ENODEV) \<and> rc < 0 \<and>
         Epbase_term \<in> set cs \<and> Fsm_start \<notin> set cs)"
    by (simp add: b_create_cases EINVAL_def ENODEV_def)
  have c1: "port_segment_bad cfg \<or> c_host_malformed cfg \<or> c_iface_unresolvable cfg \<longrightarrow>
      (\<exists>rc cs. nn_clibfabric_create cfg (Some p) = Inr (rc, cs, None) \<and>
         (rc = - EINVAL \<or> rc = - ENODEV) \<and> rc < 0 \<and>
         Epbase_term \<in> set cs \<and> Fsm_start \<notin> set cs)"
    by (simp add: c_create_cases EINVAL_def ENODEV_def)
  have b2: "nn_blibfabric_create cfg mem = Inr (rc1, cs1, obj1) \<longrightarrow>
      (Fsm_start \<in> set cs1 \<longleftrightarrow> rc1 = 0) \<and> (rc1 = 0 \<longleftrightarrow> obj1 \<noteq> None) \<and>
      (rc1 = 0 \<longleftrightarrow> \<not> port_segment_bad cfg \<and> \<not> b_iface_unresolvable cfg)"
    by (cases mem)
       (auto simp: create_without_memory b_create_cases EINVAL_def ENODEV_def
          split: if_splits)
  have c2: "nn_clibfabric_create cfg mem = Inr (rc2, cs2, obj2) \<longrightarrow>
      (Fsm_start \<in> set cs2 \<longleftrightarrow> rc2 = 0) \<and> (rc2 = 0 \<longleftrightarrow> obj2 \<noteq> None) \<and>
      (rc2 = 0 \<longleftrightarrow>
         \<not> port_segment_bad cfg \<and> \<not> c_host_malformed cfg \<and>
         \<not> c_iface_unresolvable cfg)"
    by (cases mem)
       (auto simp: create_without_memory c_create_cases EINVAL_def ENODEV_def
          split: if_splits)
  from b1 c1 b2 c2 show ?thesis by blast
qed

theorem create_failure_is_synchronous_witness:
  "port_segment_bad (example_config ''*:http'' 100 0) \<and>
   nn_blibfabric_create (example_config ''*:http'' 100 0) (Some 1) =
     Inr (- EINVAL, [Epbase_init, Epbase_term], None) \<and>
   nn_clibfabric_create (example_config ''*:http'' 100 0) (Some 1) =
     Inr (- EINVAL, [Epbase_init, Epbase_term], None) \<and>
   c_iface_unresolvable (example_config ''eth9;peer:5555'' 100 0) \<and>
   nn_clibfabric_create (example_config ''eth9;peer:5555'' 100 0) (Some 1) =
     Inr (- ENODEV, [Epbase_init, Epbase_term], None) \<and>
   b_iface_unresolvable (example_config ''eth9;peer:5555'' 100 0) \<and>
   nn_blibfabric_create (example_config ''eth9;peer:5555'' 100 0) (Some 1) =
     Inr (- ENODEV, [Epbase_init, Epbase_term], None) \<and>
   c_host_malformed (example_config '':5555'' 100 0) \<and>
   nn_clibfabric_create (example_config '':5555'' 100 0) (Some 1) =
     Inr (- EINVAL, [Epbase_init, Epbase_term], None) \<and>
   Epbase_term \<in> set [Epbase_init, Epbase_term] \<and>
   Fsm_start \<notin> set [Epbase_init, Epbase_term] \<and> - EINVAL < 0 \<and> - ENODEV < 0"
  using
    create_failure_is_synchronous [of "example_config '':5555'' 100 0" 1]
    create_failure_is_synchronous [of "example_config ''*:http'' 100 0" 1 "Some 1"
      "- EINVAL" "[Epbase_init, Epbase_term]" None
      "- EINVAL" "[Epbase_init, Epbase_term]" None]
    create_failure_is_synchronous [of "example_config ''eth9;peer:5555'' 100 0" 1 "Some 1"
      "- ENODEV" "[Epbase_init, Epbase_term]" None
      "- ENODEV" "[Epbase_init, Epbase_term]" None]
  by (simp add: b_create_cases c_create_cases example_faults EINVAL_def ENODEV_def)

section \<open>The connector's transitions\<close>

lemma c_handler_CONNECTING:
  "c_state self = NN_CLIBFABRIC_STATE_CONNECTING \<Longrightarrow>
   nn_clibfabric_handler cfg env self src type = Inr (self', cs) \<Longrightarrow>
   src = SRC_USOCK \<and>
   (type = NN_USOCK_CONNECTED \<and> c_state self' = NN_CLIBFABRIC_STATE_ACTIVE \<or>
    type = NN_USOCK_ERROR \<and> c_state self' = NN_CLIBFABRIC_STATE_STOPPING_USOCK)"
  by (auto simp: nn_clibfabric_handler_def split: src.splits evtype.splits)

text \<open>
  Claim C8. In the CONNECTING state a socket error event records the socket's error,
  stops the socket, decrements the in-progress connections, increments the connect
  errors and moves to STOPPING_USOCK; and whatever event moves the endpoint from
  CONNECTING to ACTIVE is the socket's connected event.
\<close>

theorem connect_error_is_counted:
  "c_state self = NN_CLIBFABRIC_STATE_CONNECTING \<Longrightarrow>
   nn_clibfabric_handler cfg env self SRC_USOCK NN_USOCK_ERROR =
     Inr (self\<lparr>c_state := NN_CLIBFABRIC_STATE_STOPPING_USOCK\<rparr>,
          [Epbase_set_error (usock_geterrno env), Usock_stop,
           Epbase_stat_increment NN_STAT_INPROGRESS_CONNECTIONS (- 1),
           Epbase_stat_increment NN_STAT_CONNECT_ERRORS 1]) \<and>
   (\<forall>src type self' cs.
      nn_clibfabric_handler cfg env self src type = Inr (self', cs) \<and>
      c_state self' = NN_CLIBFABRIC_STATE_ACTIVE \<longrightarrow>
      src = SRC_USOCK \<and> type = NN_USOCK_CONNECTED)"
proof (intro conjI allI impI)
  assume "c_state self = NN_CLIBFABRIC_STATE_CONNECTING"
  then show "nn_clibfabric_handler cfg env self SRC_USOCK NN_USOCK_ERROR =
     Inr (self\<lparr>c_state := NN_CLIBFABRIC_STATE_STOPPING_USOCK\<rparr>,
          [Epbase_set_error (usock_geterrno env), Usock_stop,
           Epbase_stat_increment NN_STAT_INPROGRESS_CONNECTIONS (- 1),
           Epbase_stat_increment NN_STAT_CONNECT_ERRORS 1])"
    by (simp add: nn_clibfabric_handler_def)
next
  fix src type self' cs
  assume "c_state self = NN_CLIBFABRIC_STATE_CONNECTING"
    and "nn_clibfabric_handler cfg env self src type = Inr (self', cs) \<and>
      c_state self' = NN_CLIBFABRIC_STATE_ACTIVE"
  then show "src = SRC_USOCK" "type = NN_USOCK_CONNECTED"
    using c_handler_CONNECTING [of self cfg env src type self' cs] by auto
qed

theorem connect_error_is_counted_witness:
  "c_state \<lparr>c_state = NN_CLIBFABRIC_STATE_CONNECTING\<rparr> = NN_CLIBFABRIC_STATE_CONNECTING \<and>
   nn_clibfabric_handler (example_config ''*:5555'' 100 0) (all_fine 1)
       \<lparr>c_state = NN_CLIBFABRIC_STATE_CONNECTING\<rparr> SRC_USOCK NN_USOCK_ERROR =
     Inr (\<lparr>c_state = NN_CLIBFABRIC_STATE_STOPPING_USOCK\<rparr>,
          [Epbase_set_error 0, Usock_stop,
           Epbase_stat_increment NN_STAT_INPROGRESS_CONNECTIONS (- 1),
           Epbase_stat_increment NN_STAT_CONNECT_ERRORS 1]) \<and>
   nn_clibfabric_handler (example_config ''*:5555'' 100 0) (all_fine 1)
       \<lparr>c_state = NN_CLIBFABRIC_STATE_CONNECTING\<rparr> SRC_USOCK NN_USOCK_CONNECTED =
     Inr (\<lparr>c_state = NN_CLIBFABRIC_STATE_ACTIVE\<rparr>,
          [Slibfabric_start,
           Epbase_stat_increment NN_STAT_INPROGRESS_CONNECTIONS (- 1),
           Epbase_stat_increment NN_STAT_ESTABLISHED_CONNECTIONS 1,
           Epbase_clear_error])"
  using connect_error_is_counted [of "\<lparr>c_state = NN_CLIBFABRIC_STATE_CONNECTING\<rparr>"
      "example_config ''*:5555'' 100 0" "all_fine 1"]
  by (simp add: all_fine_def nn_clibfabric_handler_def)

lemma start_connecting_result:
  "nn_clibfabric_start_connecting cfg env self = Inr (self', cs) \<Longrightarrow>
   c_state self' = NN_CLIBFABRIC_STATE_WAITING \<or> c_state self' = NN_CLIBFABRIC_STATE_CONNECTING"
  by (auto simp: nn_clibfabric_start_connecting_def Let_def
        split: option.splits if_splits prod.splits)

lemma start_resolving_result:
  "nn_clibfabric_start_resolving cfg self = Inr (self', cs) \<Longrightarrow>
   c_state self' = NN_CLIBFABRIC_STATE_RESOLVING \<and> (\<exists>h n v. cs = [Dns_start h n v])"
  by (auto simp: nn_clibfabric_start_resolving_def Let_def split: option.splits if_splits)

lemma c_handler_not_STOPPING_DNS:
  "c_state self \<noteq> NN_CLIBFABRIC_STATE_STOPPING_DNS \<Longrightarrow>
   nn_clibfabric_handler cfg env self src type = Inr (self', cs) \<Longrightarrow>
   (\<forall>c \<in> set cs. \<not> is_usock_start c \<and> \<not> is_usock_connect c) \<and>
   c_state self' \<noteq> NN_CLIBFABRIC_STATE_CONNECTING \<and>
   (c_state self' = NN_CLIBFABRIC_STATE_STOPPING_DNS \<longrightarrow>
      c_state self = NN_CLIBFABRIC_STATE_RESOLVING \<and> src = SRC_DNS \<and> type = NN_DNS_DONE \<and>
      cs = [Dns_stop])"
  by (cases "c_state self"; cases src; cases type)
     (auto simp: nn_clibfabric_handler_def dest!: start_resolving_result)

lemma c_handler_STOPPING_DNS:
  "c_state self = NN_CLIBFABRIC_STATE_STOPPING_DNS \<Longrightarrow>
   nn_clibfabric_handler cfg env self src type = Inr (self', cs) \<Longrightarrow>
   src = SRC_DNS \<and> type = NN_DNS_STOPPED \<and>
   c_state self' \<noteq> NN_CLIBFABRIC_STATE_STOPPING_DNS \<and>
   (if dns_result_error env = 0
    then nn_clibfabric_start_connecting cfg env self = Inr (self', cs)
    else self' = self\<lparr>c_state := NN_CLIBFABRIC_STATE_WAITING\<rparr> \<and> cs = [Backoff_start])"
  by (cases src; cases type)
     (auto simp: nn_clibfabric_handler_def split: if_splits dest: start_connecting_result)

text \<open>
  Claim C6. In RESOLVING the resolver's done event makes the endpoint stop the resolver
  and wait in STOPPING_DNS. There the resolver's stopped event starts the connecting
  sequence when the result slot holds no error, and starts the backoff timer and enters
  WAITING when it holds one. No invocation of the handler opens the socket, issues a
  connect or enters CONNECTING unless it is that stopped event, received in
  STOPPING_DNS with an error-free result; and STOPPING_DNS is entered only from
  RESOLVING on the done event.
\<close>

theorem connect_waits_for_resolver:
  "(c_state self = NN_CLIBFABRIC_STATE_RESOLVING \<longrightarrow>
      nn_clibfabric_handler cfg env self SRC_DNS NN_DNS_DONE =
        Inr (self\<lparr>c_state := NN_CLIBFABRIC_STATE_STOPPING_DNS\<rparr>, [Dns_stop])) \<and>
   (c_state self = NN_CLIBFABRIC_STATE_STOPPING_DNS \<and> dns_result_error env = 0 \<longrightarrow>
      nn_clibfabric_handler cfg env self SRC_DNS NN_DNS_STOPPED =
        nn_clibfabric_start_connecting cfg env self) \<and>
   (c_state self = NN_CLIBFABRIC_STATE_STOPPING_DNS \<and> dns_result_error env \<noteq> 0 \<longrightarrow>
      nn_clibfabric_handler cfg env self SRC_DNS NN_DNS_STOPPED =
        Inr (self\<lparr>c_state := NN_CLIBFABRIC_STATE_WAITING\<rparr>, [Backoff_start])) \<and>
   (nn_clibfabric_handler cfg env self src type = Inr (self', cs) \<and>
    ((\<exists>c \<in> set cs. is_usock_start c \<or> is_usock_connect c) \<or>
     c_state self' = NN_CLIBFABRIC_STATE_CONNECTING) \<longrightarrow>
      c_state self = NN_CLIBFABRIC_STATE_STOPPING_DNS \<and> src = SRC_DNS \<and>
      type = NN_DNS_STOPPED \<and> dns_result_error env = 0) \<and>
   (nn_clibfabric_handler cfg env self src type = Inr (self', cs) \<and>
    c_state self' = NN_CLIBFABRIC_STATE_STOPPING_DNS \<longrightarrow>
      c_state self = NN_CLIBFABRIC_STATE_RESOLVING \<and> src = SRC_DNS \<and>
      type = NN_DNS_DONE \<and> cs = [Dns_stop])"
proof (intro conjI impI)
  assume "c_state self = NN_CLIBFABRIC_STATE_RESOLVING"
  then show "nn_clibfabric_handler cfg env self SRC_DNS NN_DNS_DONE =
        Inr (self\<lparr>c_state := NN_CLIBFABRIC_STATE_STOPPING_DNS\<rparr>, [Dns_stop])"
    by (simp add: nn_clibfabric_handler_def)
next
  assume "c_state self = NN_CLIBFABRIC_STATE_STOPPING_DNS \<and> dns_result_error env = 0"
  then show "nn_clibfabric_handler cfg env self SRC_DNS NN_DNS_STOPPED =
        nn_clibfabric_start_connecting cfg env self"
    by (simp add: nn_clibfabric_handler_def)
next
  assume "c_state self = NN_CLIBFABRIC_STATE_STOPPING_DNS \<and> dns_result_error env \<noteq> 0"
  then show "nn_clibfabric_handler cfg env self SRC_DNS NN_DNS_STOPPED =
        Inr (self\<lparr>c_state := NN_CLIBFABRIC_STATE_WAITING\<rparr>, [Backoff_start])"
    by (simp add: nn_clibfabric_handler_def)
next
  assume a: "nn_clibfabric_handler cfg env self src type = Inr (self', cs) \<and>
    ((\<exists>c \<in> set cs. is_usock_start c \<or> is_usock_connect c) \<or>
     c_state self' = NN_CLIBFABRIC_STATE_CONNECTING)"
  then have st: "c_state self = NN_CLIBFABRIC_STATE_STOPPING_DNS"
    using c_handler_not_STOPPING_DNS [of self cfg env src type self' cs] by blast
  with a have "src = SRC_DNS \<and> type = NN_DNS_STOPPED \<and> dns_result_error env = 0"
    using c_handler_STOPPING_DNS [of self cfg env src type self' cs]
    by (auto split: if_splits)
  with st show "c_state self = NN_CLIBFABRIC_STATE_STOPPING_DNS"  "src = SRC_DNS"
      "type = NN_DNS_STOPPED" "dns_result_error env = 0"
    by simp_all
next
  assume a: "nn_clibfabric_handler cfg env self src type = Inr (self', cs) \<and>
    c_state self' = NN_CLIBFABRIC_STATE_STOPPING_DNS"
  then have "c_state self \<noteq> NN_CLIBFABRIC_STATE_STOPPING_DNS"
    using c_handler_STOPPING_DNS [of self cfg env src type self' cs] by blast
  with a show "c_state self = NN_CLIBFABRIC_STATE_RESOLVING" "src = SRC_DNS"
      "type = NN_DNS_DONE" "cs = [Dns_stop]"
    using c_handler_not_STOPPING_DNS [of self cfg env src type self' cs] by simp_all
qed

theorem connect_waits_for_resolver_witness:
  "nn_clibfabric_handler (example_config ''peer:5555'' 100 0) (all_fine 1)
       \<lparr>c_state = NN_CLIBFABRIC_STATE_RESOLVING\<rparr> SRC_DNS NN_DNS_DONE =
     Inr (\<lparr>c_state = NN_CLIBFABRIC_STATE_STOPPING_DNS\<rparr>, [Dns_stop]) \<and>
   dns_result_error (all_fine 1) = 0 \<and>
   nn_clibfabric_handler (example_config ''peer:5555'' 100 0) (all_fine 1)
       \<lparr>c_state = NN_CLIBFABRIC_STATE_STOPPING_DNS\<rparr> SRC_DNS NN_DNS_STOPPED =
     Inr (\<lparr>c_state = NN_CLIBFABRIC_STATE_CONNECTING\<rparr>,
          [Usock_start AF_INET 0, Usock_setsockopt SO_SNDBUF 131072,
           Usock_setsockopt SO_RCVBUF 131072, Usock_bind AF_INET 0 0,
           Usock_connect AF_INET 5555,
           Epbase_stat_increment NN_STAT_INPROGRESS_CONNECTIONS 1]) \<and>
   dns_result_error ((all_fine 1)\<lparr>dns_result_error := - 2\<rparr>) \<noteq> 0 \<and>
   nn_clibfabric_handler (example_config ''peer:5555'' 100 0)
       ((all_fine 1)\<lparr>dns_result_error := - 2\<rparr>)
       \<lparr>c_state = NN_CLIBFABRIC_STATE_STOPPING_DNS\<rparr> SRC_DNS NN_DNS_STOPPED =
     Inr (\<lparr>c_state = NN_CLIBFABRIC_STATE_WAITING\<rparr>, [Backoff_start])"
  using
    connect_waits_for_resolver [of "\<lparr>c_state = NN_CLIBFABRIC_STATE_RESOLVING\<rparr>"
      "example_config ''peer:5555'' 100 0" "all_fine 1" SRC_DNS NN_DNS_DONE
      "\<lparr>c_state = NN_CLIBFABRIC_STATE_STOPPING_DNS\<rparr>" "[Dns_stop]"]
    connect_waits_for_resolver [of "\<lparr>c_state = NN_CLIBFABRIC_STATE_STOPPING_DNS\<rparr>"
      "example_config ''peer:5555'' 100 0" "all_fine 1" SRC_DNS NN_DNS_STOPPED
      "\<lparr>c_state = NN_CLIBFABRIC_STATE_CONNECTING\<rparr>"
      "[Usock_start AF_INET 0, Usock_setsockopt SO_SNDBUF 131072,
        Usock_setsockopt SO_RCVBUF 131072, Usock_bind AF_INET 0 0,
        Usock_connect AF_INET 5555,
        Epbase_stat_increment NN_STAT_INPROGRESS_CONNECTIONS 1]"]
    connect_waits_for_resolver [of "\<lparr>c_state = NN_CLIBFABRIC_STATE_STOPPING_DNS\<rparr>"
      "example_config ''peer:5555'' 100 0" "(all_fine 1)\<lparr>dns_result_error := - 2\<rparr>"]
  by (simp add: all_fine_def nn_clibfabric_handler_def nn_clibfabric_start_connecting_def
        example_config_def strrchr_def strchr_def port_of_def EINVAL_def ENODEV_def)

section \<open>Order of calls along a run of the connector\<close>

lemma precedes_append:
  "\<forall>c \<in> set xs. \<not> Q c \<Longrightarrow> (\<exists>c \<in> set xs. P c) \<or> precedes P Q ys \<Longrightarrow>
   precedes P Q (xs @ ys)"
  by (induction xs) auto

lemma c_run_precedes:
  assumes step: "\<And>s env src type s' cs.
      I s \<Longrightarrow> nn_clibfabric_handler cfg env s src type = Inr (s', cs) \<Longrightarrow>
      (\<forall>c \<in> set cs. \<not> Q c) \<and> (I s' \<or> (\<exists>c \<in> set cs. P c))"
  shows "I s \<Longrightarrow> c_run cfg s evs = Inr (s', log) \<Longrightarrow> precedes P Q log"
proof (induction evs arbitrary: s log)
  case Nil
  then show ?case by simp
next
  case (Cons ev evs)
  obtain env src type where ev: "ev = (env, src, type)" by (cases ev)
  from Cons.prems(2) ev obtain s1 cs1 log1 where
    h: "nn_clibfabric_handler cfg env s src type = Inr (s1, cs1)"
    and r: "c_run cfg s1 evs = Inr (s', log1)" and l: "log = cs1 @ log1"
    by (auto split: sum.splits)
  from step [OF Cons.prems(1) h] have nq: "\<forall>c \<in> set cs1. \<not> Q c"
    and nx: "I s1 \<or> (\<exists>c \<in> set cs1. P c)" by blast+
  from nx have "(\<exists>c \<in> set cs1. P c) \<or> precedes P Q log1"
    using Cons.IH [OF _ r] by blast
  with nq l show ?case by (simp add: precedes_append)
qed


lemma c_handler_recovery:
  "nn_clibfabric_handler cfg env self src type = Inr (self', cs) \<Longrightarrow>
   (c_state self = NN_CLIBFABRIC_STATE_ACTIVE \<longrightarrow>
      src = SRC_SLIBFABRIC \<and> type = NN_SLIBFABRIC_ERROR \<and>
      self' = self\<lparr>c_state := NN_CLIBFABRIC_STATE_STOPPING_SLIBFABRIC\<rparr> \<and>
      cs = [Slibfabric_stop, Epbase_stat_increment NN_STAT_BROKEN_CONNECTIONS 1]) \<and>
   (c_state self = NN_CLIBFABRIC_STATE_STOPPING_SLIBFABRIC \<longrightarrow>
      src = SRC_SLIBFABRIC \<and>
      (type = NN_USOCK_SHUTDOWN \<and> self' = self \<and> cs = [] \<or>
       type = NN_SLIBFABRIC_STOPPED \<and>
       self' = self\<lparr>c_state := NN_CLIBFABRIC_STATE_STOPPING_USOCK\<rparr> \<and> cs = [Usock_stop])) \<and>
   (c_state self = NN_CLIBFABRIC_STATE_STOPPING_USOCK \<longrightarrow>
      src = SRC_USOCK \<and>
      (type = NN_USOCK_SHUTDOWN \<and> self' = self \<and> cs = [] \<or>
       type = NN_USOCK_STOPPED \<and>
       self' = self\<lparr>c_state := NN_CLIBFABRIC_STATE_WAITING\<rparr> \<and> cs = [Backoff_start])) \<and>
   (c_state self = NN_CLIBFABRIC_STATE_WAITING \<longrightarrow>
      src = SRC_RECONNECT_TIMER \<and> type = NN_BACKOFF_TIMEOUT \<and>
      self' = self\<lparr>c_state := NN_CLIBFABRIC_STATE_STOPPING_BACKOFF\<rparr> \<and>
      cs = [Backoff_stop]) \<and>
   (c_state self = NN_CLIBFABRIC_STATE_STOPPING_BACKOFF \<longrightarrow>
      src = SRC_RECONNECT_TIMER \<and> type = NN_BACKOFF_STOPPED \<and>
      c_state self' = NN_CLIBFABRIC_STATE_RESOLVING \<and> (\<exists>h n v. cs = [Dns_start h n v]))"
  by (cases "c_state self"; cases src; cases type)
     (auto simp: nn_clibfabric_handler_def dest!: start_resolving_result)

lemma run_stop_order_1:
  "c_state self = NN_CLIBFABRIC_STATE_ACTIVE \<Longrightarrow> c_run cfg self evs = Inr (self', log) \<Longrightarrow>
   precedes (\<lambda>c. c = Slibfabric_stop) (\<lambda>c. c = Usock_stop) log"
  by (rule c_run_precedes [where I = "\<lambda>s. c_state s = NN_CLIBFABRIC_STATE_ACTIVE"])
     (auto dest!: c_handler_recovery)

lemma run_stop_order_2:
  "c_state self = NN_CLIBFABRIC_STATE_ACTIVE \<Longrightarrow> c_run cfg self evs = Inr (self', log) \<Longrightarrow>
   precedes (\<lambda>c. c = Usock_stop) (\<lambda>c. c = Backoff_start) log"
  by (rule c_run_precedes [where I = "\<lambda>s. c_state s = NN_CLIBFABRIC_STATE_ACTIVE \<or>
        c_state s = NN_CLIBFABRIC_STATE_STOPPING_SLIBFABRIC"])
     (auto dest!: c_handler_recovery)

lemma run_stop_order_3:
  "c_state self = NN_CLIBFABRIC_STATE_ACTIVE \<Longrightarrow> c_run cfg self evs = Inr (self', log) \<Longrightarrow>
   precedes (\<lambda>c. c = Backoff_start) is_dns_start log"
  by (rule c_run_precedes [where I = "\<lambda>s. c_state s = NN_CLIBFABRIC_STATE_ACTIVE \<or>
        c_state s = NN_CLIBFABRIC_STATE_STOPPING_SLIBFABRIC \<or>
        c_state s = NN_CLIBFABRIC_STATE_STOPPING_USOCK"])
     (auto dest!: c_handler_recovery)

lemma run_stop_order_4:
  "c_state self = NN_CLIBFABRIC_STATE_ACTIVE \<Longrightarrow> c_run cfg self evs = Inr (self', log) \<Longrightarrow>
   precedes is_dns_start (\<lambda>c. is_usock_start c \<or> is_usock_connect c) log"
  by (rule c_run_precedes [where I = "\<lambda>s. c_state s = NN_CLIBFABRIC_STATE_ACTIVE \<or>
        c_state s = NN_CLIBFABRIC_STATE_STOPPING_SLIBFABRIC \<or>
        c_state s = NN_CLIBFABRIC_STATE_STOPPING_USOCK \<or>
        c_state s = NN_CLIBFABRIC_STATE_WAITING \<or>
        c_state s = NN_CLIBFABRIC_STATE_STOPPING_BACKOFF"])
     (auto dest!: c_handler_recovery)

text \<open>The example address, as the connector's actions see it.\<close>

lemma example_peer:
  "nn_clibfabric_start_resolving (example_config ''peer:5555'' i m) self =
     Inr (self\<lparr>c_state := NN_CLIBFABRIC_STATE_RESOLVING\<rparr>, [Dns_start ''peer:5555'' 4 1])"
  "nn_clibfabric_start_connecting (example_config ''peer:5555'' i m) env self =
     (if dns_result_family env \<noteq> AF_INET \<and> dns_result_family env \<noteq> AF_INET6
      then Inl Assert_failed
      else if usock_start_rc env < 0
      then Inr (self\<lparr>c_state := NN_CLIBFABRIC_STATE_WAITING\<rparr>,
                [Usock_start (dns_result_family env) (usock_start_rc env), Backoff_start])
      else if usock_bind_rc env \<noteq> 0
      then Inr (self\<lparr>c_state := NN_CLIBFABRIC_STATE_WAITING\<rparr>,
                [Usock_start (dns_result_family env) (usock_start_rc env),
                 Usock_setsockopt SO_SNDBUF 131072, Usock_setsockopt SO_RCVBUF 131072,
                 Usock_bind AF_INET 0 (usock_bind_rc env), Backoff_start])
      else Inr (self\<lparr>c_state := NN_CLIBFABRIC_STATE_CONNECTING\<rparr>,
                [Usock_start (dns_result_family env) (usock_start_rc env),
                 Usock_setsockopt SO_SNDBUF 131072, Usock_setsockopt SO_RCVBUF 131072,
                 Usock_bind AF_INET 0 (usock_bind_rc env),
                 Usock_connect (dns_result_family env) 5555,
                 Epbase_stat_increment NN_STAT_INPROGRESS_CONNECTIONS 1]))"
  by (simp_all add: nn_clibfabric_start_resolving_def nn_clibfabric_start_connecting_def
        example_config_def strrchr_def strchr_def port_of_def EINVAL_def ENODEV_def)

text \<open>
  Claim C5. When the established connection reports an error in ACTIVE, the endpoint
  stops the connection's machine; on that machine's stopped event it stops the socket;
  on the socket's stopped event it starts the backoff timer; on the timeout it stops
  the timer; and on the timer's stopped event it starts resolving again and is in
  RESOLVING. Along every run of the handler from ACTIVE the machine is stopped before
  the socket, the socket before the backoff starts, the backoff starts before the
  resolver is started, and the resolver is started before the socket is opened or a
  connect is issued.
\<close>

theorem broken_connection_is_re_resolved:
  "c_state self = NN_CLIBFABRIC_STATE_ACTIVE \<Longrightarrow>
   nn_clibfabric_handler cfg env self SRC_SLIBFABRIC NN_SLIBFABRIC_ERROR =
     Inr (self\<lparr>c_state := NN_CLIBFABRIC_STATE_STOPPING_SLIBFABRIC\<rparr>,
          [Slibfabric_stop, Epbase_stat_increment NN_STAT_BROKEN_CONNECTIONS 1]) \<and>
   nn_clibfabric_handler cfg env (self\<lparr>c_state := NN_CLIBFABRIC_STATE_STOPPING_SLIBFABRIC\<rparr>)
       SRC_SLIBFABRIC NN_SLIBFABRIC_STOPPED =
     Inr (self\<lparr>c_state := NN_CLIBFABRIC_STATE_STOPPING_USOCK\<rparr>, [Usock_stop]) \<and>
   nn_clibfabric_handler cfg env (self\<lparr>c_state := NN_CLIBFABRIC_STATE_STOPPING_USOCK\<rparr>)
       SRC_USOCK NN_USOCK_STOPPED =
     Inr (self\<lparr>c_state := NN_CLIBFABRIC_STATE_WAITING\<rparr>, [Backoff_start]) \<and>
   nn_clibfabric_handler cfg env (self\<lparr>c_state := NN_CLIBFABRIC_STATE_WAITING\<rparr>)
       SRC_RECONNECT_TIMER NN_BACKOFF_TIMEOUT =
     Inr (self\<lparr>c_state := NN_CLIBFABRIC_STATE_STOPPING_BACKOFF\<rparr>, [Backoff_stop]) \<and>
   nn_clibfabric_handler cfg env (self\<lparr>c_state := NN_CLIBFABRIC_STATE_STOPPING_BACKOFF\<rparr>)
       SRC_RECONNECT_TIMER NN_BACKOFF_STOPPED =
     nn_clibfabric_start_resolving cfg
       (self\<lparr>c_state := NN_CLIBFABRIC_STATE_STOPPING_BACKOFF\<rparr>) \<and>
   (\<forall>self' cs.
      nn_clibfabric_start_resolving cfg
        (self\<lparr>c_state := NN_CLIBFABRIC_STATE_STOPPING_BACKOFF\<rparr>) = Inr (self', cs) \<longrightarrow>
      c_state self' = NN_CLIBFABRIC_STATE_RESOLVING \<and> (\<exists>h n v. cs = [Dns_start h n v])) \<and>
   (\<forall>evs self' log.
      c_run cfg self evs = Inr (self', log) \<longrightarrow>
      precedes (\<lambda>c. c = Slibfabric_stop) (\<lambda>c. c = Usock_stop) log \<and>
      precedes (\<lambda>c. c = Usock_stop) (\<lambda>c. c = Backoff_start) log \<and>
      precedes (\<lambda>c. c = Backoff_start) is_dns_start log \<and>
      precedes is_dns_start (\<lambda>c. is_usock_start c \<or> is_usock_connect c) log)"
proof (intro conjI allI impI)
  fix evs self' log
  assume "c_state self = NN_CLIBFABRIC_STATE_ACTIVE"
    and "c_run cfg self evs = Inr (self', log)"
  then show "precedes (\<lambda>c. c = Slibfabric_stop) (\<lambda>c. c = Usock_stop) log"
    "precedes (\<lambda>c. c = Usock_stop) (\<lambda>c. c = Backoff_start) log"
    "precedes (\<lambda>c. c = Backoff_start) is_dns_start log"
    "precedes is_dns_start (\<lambda>c. is_usock_start c \<or> is_usock_connect c) log"
    by (rule run_stop_order_1 run_stop_order_2 run_stop_order_3 run_stop_order_4)+
next
  fix self' cs
  assume "nn_clibfabric_start_resolving cfg
        (self\<lparr>c_state := NN_CLIBFABRIC_STATE_STOPPING_BACKOFF\<rparr>) = Inr (self', cs)"
  then show "c_state self' = NN_CLIBFABRIC_STATE_RESOLVING" "\<exists>h n v. cs = [Dns_start h n v]"
    by (auto dest: start_resolving_result)
qed (simp_all add: nn_clibfabric_handler_def)

theorem broken_connection_is_re_resolved_witness:
  "c_state \<lparr>c_state = NN_CLIBFABRIC_STATE_ACTIVE\<rparr> = NN_CLIBFABRIC_STATE_ACTIVE \<and>
   c_run (example_config ''peer:5555'' 100 0) \<lparr>c_state = NN_CLIBFABRIC_STATE_ACTIVE\<rparr>
     [(all_fine 1, SRC_SLIBFABRIC, NN_SLIBFABRIC_ERROR),
      (all_fine 1, SRC_SLIBFABRIC, NN_SLIBFABRIC_STOPPED),
      (all_fine 1, SRC_USOCK, NN_USOCK_STOPPED),
      (all_fine 1, SRC_RECONNECT_TIMER, NN_BACKOFF_TIMEOUT),
      (all_fine 1, SRC_RECONNECT_TIMER, NN_BACKOFF_STOPPED),
      (all_fine 1, SRC_DNS, NN_DNS_DONE),
      (all_fine 1, SRC_DNS, NN_DNS_STOPPED)] =
     Inr (\<lparr>c_state = NN_CLIBFABRIC_STATE_CONNECTING\<rparr>,
          [Slibfabric_stop, Epbase_stat_increment NN_STAT_BROKEN_CONNECTIONS 1,
           Usock_stop, Backoff_start, Backoff_stop, Dns_start ''peer:5555'' 4 1,
           Dns_stop, Usock_start AF_INET 0, Usock_setsockopt SO_SNDBUF 131072,
           Usock_setsockopt SO_RCVBUF 131072, Usock_bind AF_INET 0 0,
           Usock_connect AF_INET 5555,
           Epbase_stat_increment NN_STAT_INPROGRESS_CONNECTIONS 1]) \<and>
   precedes is_dns_start (\<lambda>c. is_usock_start c \<or> is_usock_connect c)
     [Slibfabric_stop, Epbase_stat_increment NN_STAT_BROKEN_CONNECTIONS 1,
      Usock_stop, Backoff_start, Backoff_stop, Dns_start ''peer:5555'' 4 1,
      Dns_stop, Usock_start AF_INET 0, Usock_setsockopt SO_SNDBUF 131072,
      Usock_setsockopt SO_RCVBUF 131072, Usock_bind AF_INET 0 0,
      Usock_connect AF_INET 5555,
      Epbase_stat_increment NN_STAT_INPROGRESS_CONNECTIONS 1]"
  using broken_connection_is_re_resolved [of "\<lparr>c_state = NN_CLIBFABRIC_STATE_ACTIVE\<rparr>"
      "example_config ''peer:5555'' 100 0" "all_fine 1"]
  by (simp add: nn_clibfabric_handler_def example_peer all_fine_def)

text \<open>
  Claim C1, evaluated where the code departs from it. The resolver has stopped with an
  error-free result; the socket opens (\<^verbatim>\<open>nn_usock_start\<close> returns 0) and the bind
  fails with \<open>- 98\<close>. The endpoint starts the backoff timer and waits without stopping
  the socket, and the next attempt, after timeout and a new resolution, calls
  \<^verbatim>\<open>nn_usock_start\<close> on it again: no \<^verbatim>\<open>nn_usock_stop\<close> lies between the two.
\<close>

theorem bind_failure_leaves_socket_open:
  "c_run (example_config ''peer:5555'' 100 0) \<lparr>c_state = NN_CLIBFABRIC_STATE_STOPPING_DNS\<rparr>
     [((all_fine 1)\<lparr>usock_bind_rc := - 98\<rparr>, SRC_DNS, NN_DNS_STOPPED),
      (all_fine 1, SRC_RECONNECT_TIMER, NN_BACKOFF_TIMEOUT),
      (all_fine 1, SRC_RECONNECT_TIMER, NN_BACKOFF_STOPPED),
      (all_fine 1, SRC_DNS, NN_DNS_DONE),
      (all_fine 1, SRC_DNS, NN_DNS_STOPPED)] =
     Inr (\<lparr>c_state = NN_CLIBFABRIC_STATE_CONNECTING\<rparr>,
          [Usock_start AF_INET 0, Usock_setsockopt SO_SNDBUF 131072,
           Usock_setsockopt SO_RCVBUF 131072, Usock_bind AF_INET 0 (- 98),
           Backoff_start, Backoff_stop, Dns_start ''peer:5555'' 4 1, Dns_stop,
           Usock_start AF_INET 0, Usock_setsockopt SO_SNDBUF 131072,
           Usock_setsockopt SO_RCVBUF 131072, Usock_bind AF_INET 0 0,
           Usock_connect AF_INET 5555,
           Epbase_stat_increment NN_STAT_INPROGRESS_CONNECTIONS 1])"
  by (simp add: nn_clibfabric_handler_def example_peer all_fine_def)

section \<open>The listener's transitions\<close>

lemma start_accepting_cases:
  "nn_blibfabric_start_accepting env self = Inr (self', cs) \<Longrightarrow>
   alibfabric self = None \<and>
   (\<exists>p. alloc env = Some p \<and> self' = self\<lparr>alibfabric := Some p\<rparr> \<and>
        cs = [Alibfabric_init p, Alibfabric_start p])"
  by (auto simp: nn_blibfabric_start_accepting_def split: if_splits option.splits)

lemma start_listening_cases:
  "nn_blibfabric_start_listening cfg env self = Inr (self', cs) \<Longrightarrow>
   (usock_start_rc env < 0 \<and> self' = self\<lparr>b_state := NN_BLIBFABRIC_STATE_WAITING\<rparr> \<and>
      (\<exists>f. cs = [Usock_start f (usock_start_rc env), Backoff_start])) \<or>
   (0 \<le> usock_start_rc env \<and> usock_bind_rc env < 0 \<and>
      self' = self\<lparr>b_state := NN_BLIBFABRIC_STATE_CLOSING\<rparr> \<and>
      (\<exists>f n. cs = [Usock_start f (usock_start_rc env), Usock_bind f n (usock_bind_rc env),
                   Usock_stop])) \<or>
   (0 \<le> usock_start_rc env \<and> 0 \<le> usock_bind_rc env \<and> usock_listen_rc env < 0 \<and>
      self' = self\<lparr>b_state := NN_BLIBFABRIC_STATE_CLOSING\<rparr> \<and>
      (\<exists>f n. cs = [Usock_start f (usock_start_rc env), Usock_bind f n (usock_bind_rc env),
                   Usock_listen NN_BLIBFABRIC_BACKLOG (usock_listen_rc env), Usock_stop])) \<or>
   (0 \<le> usock_start_rc env \<and> 0 \<le> usock_bind_rc env \<and> 0 \<le> usock_listen_rc env \<and>
      alibfabric self = None \<and>
      (\<exists>p. alloc env = Some p \<and>
         self' = self\<lparr>alibfabric := Some p, b_state := NN_BLIBFABRIC_STATE_ACTIVE\<rparr> \<and>
         (\<exists>f n. cs = [Usock_start f (usock_start_rc env),
                      Usock_bind f n (usock_bind_rc env),
                      Usock_listen NN_BLIBFABRIC_BACKLOG (usock_listen_rc env),
                      Alibfabric_init p, Alibfabric_start p])))"
  by (auto simp: nn_blibfabric_start_listening_def Let_def
        split: option.splits if_splits prod.splits sum.splits
        dest!: start_accepting_cases)

lemma b_handler_cases:
  "nn_blibfabric_handler cfg env self src type srcptr = Inr (self', cs) \<Longrightarrow>
   (b_state self = NN_BLIBFABRIC_STATE_IDLE \<and> src = NN_FSM_ACTION \<and> type = NN_FSM_START \<and>
      nn_blibfabric_start_listening cfg env self = Inr (self', cs)) \<or>
   (b_state self = NN_BLIBFABRIC_STATE_ACTIVE \<and> srcptr = alibfabric self \<and>
      type = NN_ALIBFABRIC_ACCEPTED \<and>
      (\<exists>a. alibfabric self = Some a \<and>
         nn_blibfabric_start_accepting env
           (self\<lparr>alibfabrics := alibfabrics self @ [a], alibfabric := None\<rparr>) =
         Inr (self', cs))) \<or>
   (b_state self = NN_BLIBFABRIC_STATE_ACTIVE \<and> srcptr \<noteq> alibfabric self \<and>
      src = SRC_ALIBFABRIC \<and>
      (\<exists>c. srcptr = Some c \<and>
         (type = NN_ALIBFABRIC_ERROR \<and> self' = self \<and> cs = [Alibfabric_stop c] \<or>
          type = NN_ALIBFABRIC_STOPPED \<and>
          self' = self\<lparr>alibfabrics := remove1 c (alibfabrics self)\<rparr> \<and>
          cs = [Alibfabric_term c, Free c]))) \<or>
   (b_state self = NN_BLIBFABRIC_STATE_CLOSING \<and> src = SRC_USOCK \<and>
      (type = NN_USOCK_SHUTDOWN \<and> self' = self \<and> cs = [] \<or>
       type = NN_USOCK_STOPPED \<and>
       self' = self\<lparr>b_state := NN_BLIBFABRIC_STATE_WAITING\<rparr> \<and> cs = [Backoff_start])) \<or>
   (b_state self = NN_BLIBFABRIC_STATE_WAITING \<and> src = SRC_RECONNECT_TIMER \<and>
      type = NN_BACKOFF_TIMEOUT \<and>
      self' = self\<lparr>b_state := NN_BLIBFABRIC_STATE_STOPPING_BACKOFF\<rparr> \<and>
      cs = [Backoff_stop]) \<or>
   (b_state self = NN_BLIBFABRIC_STATE_STOPPING_BACKOFF \<and> src = SRC_RECONNECT_TIMER \<and>
      type = NN_BACKOFF_STOPPED \<and>
      nn_blibfabric_start_listening cfg env self = Inr (self', cs))"
  by (cases "b_state self"; cases src; cases type)
     (auto simp: nn_blibfabric_handler_def split: if_splits option.splits)

lemma b_handler_not_idle:
  "nn_blibfabric_handler cfg env self src type srcptr = Inr (self', cs) \<Longrightarrow>
   b_state self' \<noteq> NN_BLIBFABRIC_STATE_IDLE"
  by (auto dest!: b_handler_cases start_listening_cases start_accepting_cases)

lemma b_handler_active:
  "nn_blibfabric_handler cfg env self src type srcptr = Inr (self', cs) \<Longrightarrow>
   b_state self = NN_BLIBFABRIC_STATE_ACTIVE \<longrightarrow> alibfabric self \<noteq> None \<Longrightarrow>
   b_state self' = NN_BLIBFABRIC_STATE_ACTIVE \<longrightarrow> alibfabric self' \<noteq> None"
  by (auto dest!: b_handler_cases start_listening_cases start_accepting_cases)

lemma b_inv_handler:
  "b_inv self \<Longrightarrow> alloc_fresh env self \<Longrightarrow>
   nn_blibfabric_handler cfg env self src type srcptr = Inr (self', cs) \<Longrightarrow> b_inv self'"
  by (auto simp: b_inv_def alloc_fresh_def split: option.splits
        dest!: b_handler_cases start_listening_cases start_accepting_cases)

lemma b_inv_create:
  "nn_blibfabric_create cfg mem = Inr (rc, cs, Some self) \<Longrightarrow> b_inv self"
  by (cases mem)
     (auto simp: create_without_memory b_create_cases b_inv_def split: if_splits)

lemma b_run_not_idle:
  "b_run cfg s (ev # evs) = Inr (s', log) \<Longrightarrow> b_state s' \<noteq> NN_BLIBFABRIC_STATE_IDLE"
proof (induction evs arbitrary: s ev log)
  case Nil
  obtain env src type p where ev: "ev = (env, src, type, p)" by (cases ev)
  with Nil show ?case by (auto split: sum.splits dest: b_handler_not_idle)
next
  case (Cons ev' evs)
  obtain env src type p where ev: "ev = (env, src, type, p)" by (cases ev)
  from Cons.prems ev obtain s1 cs1 log1 where
    r: "b_run cfg s1 (ev' # evs) = Inr (s', log1)"
    by (auto split: sum.splits)
  from Cons.IH [OF r] show ?case .
qed

lemma b_run_active:
  "b_run cfg s evs = Inr (s', log) \<Longrightarrow>
   b_state s = NN_BLIBFABRIC_STATE_ACTIVE \<longrightarrow> alibfabric s \<noteq> None \<Longrightarrow>
   b_state s' = NN_BLIBFABRIC_STATE_ACTIVE \<longrightarrow> alibfabric s' \<noteq> None"
proof (induction evs arbitrary: s log)
  case Nil
  then show ?case by simp
next
  case (Cons ev evs)
  obtain env src type p where ev: "ev = (env, src, type, p)" by (cases ev)
  from Cons.prems(1) ev obtain s1 cs1 log1 where
    h: "nn_blibfabric_handler cfg env s src type p = Inr (s1, cs1)"
    and r: "b_run cfg s1 evs = Inr (s', log1)"
    by (auto split: sum.splits)
  from b_handler_active [OF h Cons.prems(2)] Cons.IH [OF r] show ?case by blast
qed

lemma example_listen:
  "nn_blibfabric_start_listening (example_config ''*:5555'' i m) env self =
     (if usock_start_rc env < 0
      then Inr (self\<lparr>b_state := NN_BLIBFABRIC_STATE_WAITING\<rparr>,
                [Usock_start AF_INET (usock_start_rc env), Backoff_start])
      else if usock_bind_rc env < 0
      then Inr (self\<lparr>b_state := NN_BLIBFABRIC_STATE_CLOSING\<rparr>,
                [Usock_start AF_INET (usock_start_rc env),
                 Usock_bind AF_INET 5555 (usock_bind_rc env), Usock_stop])
      else if usock_listen_rc env < 0
      then Inr (self\<lparr>b_state := NN_BLIBFABRIC_STATE_CLOSING\<rparr>,
                [Usock_start AF_INET (usock_start_rc env),
                 Usock_bind AF_INET 5555 (usock_bind_rc env),
                 Usock_listen 100 (usock_listen_rc env), Usock_stop])
      else (case nn_blibfabric_start_accepting env self of
              Inl e \<Rightarrow> Inl e
            | Inr (self', cs) \<Rightarrow>
                Inr (self'\<lparr>b_state := NN_BLIBFABRIC_STATE_ACTIVE\<rparr>,
                     [Usock_start AF_INET (usock_start_rc env),
                      Usock_bind AF_INET 5555 (usock_bind_rc env),
                      Usock_listen 100 (usock_listen_rc env)] @ cs)))"
  by (simp add: nn_blibfabric_start_listening_def example_config_def strrchr_def
        port_of_def EINVAL_def ENODEV_def NN_BLIBFABRIC_BACKLOG_def
        split: sum.split prod.split)

section \<open>The listener's shutdown\<close>

lemmas shutdown_defs =
  nn_blibfabric_shutdown_def shutdown_alibfabric_def shutdown_usock_def
  alibfabrics_stopping_def

lemma shutdown_pending_eq:
  assumes "alibfabric s = Some a"
    and "b_state s = NN_BLIBFABRIC_STATE_STOPPING_ALIBFABRIC \<or>
         src = NN_FSM_ACTION \<and> type = NN_FSM_STOP"
  shows "nn_blibfabric_shutdown env s src type p =
     (let pre = (if src = NN_FSM_ACTION \<and> type = NN_FSM_STOP
                 then [Backoff_stop, Alibfabric_stop a] else [])
      in if \<not> alibfabric_isidle env
         then Inr (s\<lparr>b_state := NN_BLIBFABRIC_STATE_STOPPING_ALIBFABRIC\<rparr>,
                   pre @ [Alibfabric_isidle a False])
         else if \<not> usock_isidle env
         then Inr (s\<lparr>alibfabric := None, b_state := NN_BLIBFABRIC_STATE_STOPPING_USOCK\<rparr>,
                   pre @ [Alibfabric_isidle a True, Alibfabric_term a, Free a, Usock_stop,
                          Usock_isidle False])
         else if alibfabrics s = []
         then Inr (s\<lparr>alibfabric := None, b_state := NN_BLIBFABRIC_STATE_IDLE\<rparr>,
                   pre @ [Alibfabric_isidle a True, Alibfabric_term a, Free a, Usock_stop,
                          Usock_isidle True, Fsm_stopped_noevent, Epbase_stopped])
         else Inr (s\<lparr>alibfabric := None,
                     b_state := NN_BLIBFABRIC_STATE_STOPPING_ALIBFABRICS\<rparr>,
                   pre @ [Alibfabric_isidle a True, Alibfabric_term a, Free a, Usock_stop,
                          Usock_isidle True] @ map Alibfabric_stop (alibfabrics s)))"
  using assms by (cases s) (auto simp: shutdown_defs)

lemma shutdown_socket_wait_eq:
  assumes "b_state s = NN_BLIBFABRIC_STATE_STOPPING_USOCK \<and>
           \<not> (src = NN_FSM_ACTION \<and> type = NN_FSM_STOP) \<or>
           alibfabric s = None \<and> src = NN_FSM_ACTION \<and> type = NN_FSM_STOP"
  shows "nn_blibfabric_shutdown env s src type p =
     (let pre = (if src = NN_FSM_ACTION \<and> type = NN_FSM_STOP then [Backoff_stop] else [])
      in if \<not> usock_isidle env
         then Inr (s\<lparr>b_state := NN_BLIBFABRIC_STATE_STOPPING_USOCK\<rparr>,
                   pre @ [Usock_isidle False])
         else if alibfabrics s = []
         then Inr (s\<lparr>b_state := NN_BLIBFABRIC_STATE_IDLE\<rparr>,
                   pre @ [Usock_isidle True, Fsm_stopped_noevent, Epbase_stopped])
         else Inr (s\<lparr>b_state := NN_BLIBFABRIC_STATE_STOPPING_ALIBFABRICS\<rparr>,
                   pre @ Usock_isidle True # map Alibfabric_stop (alibfabrics s)))"
  using assms by (cases s) (auto simp: shutdown_defs)


lemma shutdown_not_stopping:
  "b_state s = NN_BLIBFABRIC_STATE_ACTIVE \<Longrightarrow>
   \<not> (src = NN_FSM_ACTION \<and> type = NN_FSM_STOP) \<Longrightarrow>
   nn_blibfabric_shutdown env s src type p = Inl Bad_action"
  by (auto simp: shutdown_defs)

lemma shutdown_pending_step:
  assumes "alibfabric s = Some a"
    and "b_state s = NN_BLIBFABRIC_STATE_ACTIVE \<or>
         b_state s = NN_BLIBFABRIC_STATE_STOPPING_ALIBFABRIC"
    and "nn_blibfabric_shutdown env s src type p = Inr (s', cs)"
  shows "b_state s = NN_BLIBFABRIC_STATE_STOPPING_ALIBFABRIC \<or>
         src = NN_FSM_ACTION \<and> type = NN_FSM_STOP"
  using assms shutdown_not_stopping [of s src type env p] by auto

lemma precedes_append2:
  "precedes P Q xs \<Longrightarrow> (\<exists>c \<in> set xs. P c) \<or> precedes P Q ys \<Longrightarrow> precedes P Q (xs @ ys)"
  by (induction xs) (auto split: if_splits)

lemma b_shutdown_precedes:
  assumes step: "\<And>s env src type p s' cs.
      I s \<Longrightarrow> nn_blibfabric_shutdown env s src type p = Inr (s', cs) \<Longrightarrow>
      precedes P Q cs \<and> (I s' \<or> (\<exists>c \<in> set cs. P c))"
  shows "I s \<Longrightarrow> b_run_shutdown s evs = Inr (s', log) \<Longrightarrow> precedes P Q log"
proof (induction evs arbitrary: s log)
  case Nil
  then show ?case by simp
next
  case (Cons ev evs)
  obtain env src type p where ev: "ev = (env, src, type, p)" by (cases ev)
  from Cons.prems(2) ev obtain s1 cs1 log1 where
    h: "nn_blibfabric_shutdown env s src type p = Inr (s1, cs1)"
    and r: "b_run_shutdown s1 evs = Inr (s', log1)" and l: "log = cs1 @ log1"
    by (auto split: sum.splits)
  from step [OF Cons.prems(1) h] have pq: "precedes P Q cs1"
    and nx: "I s1 \<or> (\<exists>c \<in> set cs1. P c)" by blast+
  from nx have "(\<exists>c \<in> set cs1. P c) \<or> precedes P Q log1"
    using Cons.IH [OF _ r] by blast
  with pq l show ?case by (simp add: precedes_append2)
qed

lemma shutdown_report_aux:
  "case nn_blibfabric_shutdown env s src type p of
     Inl e \<Rightarrow> True
   | Inr (s', cs) \<Rightarrow>
       (Epbase_stopped \<in> set cs \<or> alibfabrics s = [] \<longrightarrow> alibfabrics s' = []) \<and>
       (b_state s' = NN_BLIBFABRIC_STATE_IDLE \<longrightarrow> Epbase_stopped \<in> set cs)"
  by (cases s) (auto simp: shutdown_defs split: option.split)

lemma shutdown_report:
  "nn_blibfabric_shutdown env s src type p = Inr (s', cs) \<Longrightarrow>
   (Epbase_stopped \<in> set cs \<or> alibfabrics s = [] \<longrightarrow> alibfabrics s' = []) \<and>
   (b_state s' = NN_BLIBFABRIC_STATE_IDLE \<longrightarrow> Epbase_stopped \<in> set cs)"
  using shutdown_report_aux [where env = env and s = s and src = src and type = type and p = p]
  by simp

lemma retiring_step:
  assumes "retiring a s" and "nn_blibfabric_shutdown env s src type p = Inr (s', cs)"
  shows "\<exists>pre.
     (pre = [] \<and> \<not> (src = NN_FSM_ACTION \<and> type = NN_FSM_STOP) \<or>
      pre = [Backoff_stop, Alibfabric_stop a] \<and> src = NN_FSM_ACTION \<and> type = NN_FSM_STOP) \<and>
     (cs = pre @ [Alibfabric_isidle a False] \<and> retiring a s' \<or>
      cs = pre @ [Alibfabric_isidle a True, Alibfabric_term a, Free a, Usock_stop,
                  Usock_isidle False] \<and>
        alibfabric s' = None \<and> b_state s' = NN_BLIBFABRIC_STATE_STOPPING_USOCK \<or>
      (\<exists>post. cs = pre @ [Alibfabric_isidle a True, Alibfabric_term a, Free a, Usock_stop,
                  Usock_isidle True] @ post))"
proof -
  define pre where
    "pre = (if src = NN_FSM_ACTION \<and> type = NN_FSM_STOP
            then [Backoff_stop, Alibfabric_stop a] else [])"
  have pre: "pre = [] \<and> \<not> (src = NN_FSM_ACTION \<and> type = NN_FSM_STOP) \<or>
      pre = [Backoff_stop, Alibfabric_stop a] \<and> src = NN_FSM_ACTION \<and> type = NN_FSM_STOP"
    by (simp add: pre_def)
  from assms have a: "alibfabric s = Some a" by (simp add: retiring_def)
  from assms have st:
    "b_state s = NN_BLIBFABRIC_STATE_STOPPING_ALIBFABRIC \<or>
     src = NN_FSM_ACTION \<and> type = NN_FSM_STOP"
    using shutdown_pending_step [of s a env src type p s' cs] by (simp add: retiring_def)
  note eq = shutdown_pending_eq [OF a st, of env p, folded pre_def, unfolded Let_def]
  consider (w) "\<not> alibfabric_isidle env"
    | (u) "alibfabric_isidle env" "\<not> usock_isidle env"
    | (d) "alibfabric_isidle env" "usock_isidle env"
    by blast
  then show ?thesis
  proof cases
    case w
    with eq assms(2) have "cs = pre @ [Alibfabric_isidle a False]"
      and "s' = s\<lparr>b_state := NN_BLIBFABRIC_STATE_STOPPING_ALIBFABRIC\<rparr>"
      by simp_all
    with a pre show ?thesis by (auto simp: retiring_def)
  next
    case u
    with eq assms(2) have
      "cs = pre @ [Alibfabric_isidle a True, Alibfabric_term a, Free a, Usock_stop,
                   Usock_isidle False]"
      and "s' = s\<lparr>alibfabric := None, b_state := NN_BLIBFABRIC_STATE_STOPPING_USOCK\<rparr>"
      by simp_all
    with pre show ?thesis by auto
  next
    case d
    with eq assms(2) have
      "\<exists>post. cs = pre @ [Alibfabric_isidle a True, Alibfabric_term a, Free a, Usock_stop,
                   Usock_isidle True] @ post"
      by (cases "alibfabrics s = []") auto
    with pre show ?thesis by blast
  qed
qed


lemma socket_waiting_step:
  assumes "socket_waiting s" and "nn_blibfabric_shutdown env s src type p = Inr (s', cs)"
  shows "\<exists>pre. (pre = [] \<or> pre = [Backoff_stop]) \<and>
     (cs = pre @ [Usock_isidle False] \<and> socket_waiting s' \<or>
      (\<exists>post. cs = pre @ [Usock_isidle True] @ post))"
proof -
  define pre where
    "pre = (if src = NN_FSM_ACTION \<and> type = NN_FSM_STOP then [Backoff_stop] else [])"
  have pre: "pre = [] \<or> pre = [Backoff_stop]"
    by (simp add: pre_def)
  from assms(1) have st:
    "b_state s = NN_BLIBFABRIC_STATE_STOPPING_USOCK \<and>
       \<not> (src = NN_FSM_ACTION \<and> type = NN_FSM_STOP) \<or>
     alibfabric s = None \<and> src = NN_FSM_ACTION \<and> type = NN_FSM_STOP"
    by (auto simp: socket_waiting_def)
  note eq = shutdown_socket_wait_eq [OF st, of env p, folded pre_def, unfolded Let_def]
  show ?thesis
  proof (cases "usock_isidle env")
    case False
    with eq assms(2) have "cs = pre @ [Usock_isidle False]"
      and "s' = s\<lparr>b_state := NN_BLIBFABRIC_STATE_STOPPING_USOCK\<rparr>"
      by simp_all
    with assms(1) pre show ?thesis by (auto simp: socket_waiting_def)
  next
    case True
    with eq assms(2) have "\<exists>post. cs = pre @ [Usock_isidle True] @ post"
      by (cases "alibfabrics s = []") auto
    with pre show ?thesis by blast
  qed
qed

lemma shutdown_stop_first:
  assumes "nn_blibfabric_shutdown env s NN_FSM_ACTION NN_FSM_STOP p = Inr (s', cs)"
  shows "\<exists>rest. cs = Backoff_stop # rest"
proof (cases "alibfabric s")
  case None
  then have "socket_waiting (s\<lparr>b_state := NN_BLIBFABRIC_STATE_STOPPING_USOCK\<rparr>)"
    by (simp add: socket_waiting_def)
  from None assms shutdown_socket_wait_eq [of s NN_FSM_ACTION NN_FSM_STOP env p]
  show ?thesis by (auto simp: Let_def split: if_splits)
next
  case (Some a)
  from Some assms shutdown_pending_eq [of s a NN_FSM_ACTION NN_FSM_STOP env p]
  show ?thesis by (auto simp: Let_def split: if_splits)
qed

lemma retire_order_1_retiring:
  assumes "retiring a s"
    and "nn_blibfabric_shutdown env s src type p = Inr (s', cs)"
  shows "precedes (\<lambda>x. x = Alibfabric_isidle a True) (\<lambda>x. x = Alibfabric_term a) cs \<and>
     (retiring a s' \<or> (\<exists>x \<in> set cs. (\<lambda>x. x = Alibfabric_isidle a True) x))"
  using retiring_step [OF assms(1,2)] 
  by (elim exE conjE disjE) (simp_all add: socket_waiting_def)

lemma retire_order_1:
  assumes "retiring a s0" and "b_run_shutdown s0 evs = Inr (s1, log)"
  shows "precedes (\<lambda>x. x = Alibfabric_isidle a True) (\<lambda>x. x = Alibfabric_term a) log"
proof (rule b_shutdown_precedes [where I = "retiring a"])
  show "retiring a s0" using assms by simp
  show "b_run_shutdown s0 evs = Inr (s1, log)" by fact
next
  fix s env src type p s' cs
  assume "retiring a s" and "nn_blibfabric_shutdown env s src type p = Inr (s', cs)"
  then show "precedes (\<lambda>x. x = Alibfabric_isidle a True) (\<lambda>x. x = Alibfabric_term a) cs \<and>
     (retiring a s' \<or> (\<exists>x \<in> set cs. (\<lambda>x. x = Alibfabric_isidle a True) x))"
    by (rule retire_order_1_retiring)
qed

lemma retire_order_2_retiring:
  assumes "retiring a s"
    and "nn_blibfabric_shutdown env s src type p = Inr (s', cs)"
  shows "precedes (\<lambda>x. x = Alibfabric_term a) (\<lambda>x. x = Usock_stop) cs \<and>
     (retiring a s' \<or> (\<exists>x \<in> set cs. (\<lambda>x. x = Alibfabric_term a) x))"
  using retiring_step [OF assms(1,2)] 
  by (elim exE conjE disjE) (simp_all add: socket_waiting_def)

lemma retire_order_2:
  assumes "retiring a s0" and "b_run_shutdown s0 evs = Inr (s1, log)"
  shows "precedes (\<lambda>x. x = Alibfabric_term a) (\<lambda>x. x = Usock_stop) log"
proof (rule b_shutdown_precedes [where I = "retiring a"])
  show "retiring a s0" using assms by simp
  show "b_run_shutdown s0 evs = Inr (s1, log)" by fact
next
  fix s env src type p s' cs
  assume "retiring a s" and "nn_blibfabric_shutdown env s src type p = Inr (s', cs)"
  then show "precedes (\<lambda>x. x = Alibfabric_term a) (\<lambda>x. x = Usock_stop) cs \<and>
     (retiring a s' \<or> (\<exists>x \<in> set cs. (\<lambda>x. x = Alibfabric_term a) x))"
    by (rule retire_order_2_retiring)
qed

lemma retire_order_3_retiring:
  assumes "retiring a s"
    and "nn_blibfabric_shutdown env s src type p = Inr (s', cs)"
  shows "precedes (\<lambda>x. x = Usock_stop) (\<lambda>x. x = Usock_isidle True) cs \<and>
     (retiring a s' \<or> (\<exists>x \<in> set cs. (\<lambda>x. x = Usock_stop) x))"
  using retiring_step [OF assms(1,2)] 
  by (elim exE conjE disjE) (simp_all add: socket_waiting_def)

lemma retire_order_3:
  assumes "retiring a s0" and "b_run_shutdown s0 evs = Inr (s1, log)"
  shows "precedes (\<lambda>x. x = Usock_stop) (\<lambda>x. x = Usock_isidle True) log"
proof (rule b_shutdown_precedes [where I = "retiring a"])
  show "retiring a s0" using assms by simp
  show "b_run_shutdown s0 evs = Inr (s1, log)" by fact
next
  fix s env src type p s' cs
  assume "retiring a s" and "nn_blibfabric_shutdown env s src type p = Inr (s', cs)"
  then show "precedes (\<lambda>x. x = Usock_stop) (\<lambda>x. x = Usock_isidle True) cs \<and>
     (retiring a s' \<or> (\<exists>x \<in> set cs. (\<lambda>x. x = Usock_stop) x))"
    by (rule retire_order_3_retiring)
qed

lemma retire_order_4_retiring:
  assumes "c \<noteq> a" and "retiring a s"
    and "nn_blibfabric_shutdown env s src type p = Inr (s', cs)"
  shows "precedes (\<lambda>x. x = Usock_stop) (\<lambda>x. x = Alibfabric_stop c) cs \<and>
     (retiring a s' \<or> (\<exists>x \<in> set cs. (\<lambda>x. x = Usock_stop) x))"
  using retiring_step [OF assms(2,3)] assms(1)
  by (elim exE conjE disjE) (simp_all add: socket_waiting_def)

lemma retire_order_4:
  assumes "c \<noteq> a" and "retiring a s0" and "b_run_shutdown s0 evs = Inr (s1, log)"
  shows "precedes (\<lambda>x. x = Usock_stop) (\<lambda>x. x = Alibfabric_stop c) log"
proof (rule b_shutdown_precedes [where I = "retiring a"])
  show "retiring a s0" using assms by simp
  show "b_run_shutdown s0 evs = Inr (s1, log)" by fact
next
  fix s env src type p s' cs
  assume "retiring a s" and "nn_blibfabric_shutdown env s src type p = Inr (s', cs)"
  then show "precedes (\<lambda>x. x = Usock_stop) (\<lambda>x. x = Alibfabric_stop c) cs \<and>
     (retiring a s' \<or> (\<exists>x \<in> set cs. (\<lambda>x. x = Usock_stop) x))"
    by (rule retire_order_4_retiring [OF assms(1)])
qed

lemma retire_order_5_retiring:
  assumes "c \<noteq> a" and "retiring a s"
    and "nn_blibfabric_shutdown env s src type p = Inr (s', cs)"
  shows "precedes (\<lambda>x. x = Usock_isidle True) (\<lambda>x. x = Alibfabric_stop c) cs \<and>
     ((retiring a s' \<or> socket_waiting s') \<or> (\<exists>x \<in> set cs. (\<lambda>x. x = Usock_isidle True) x))"
  using retiring_step [OF assms(2,3)] assms(1)
  by (elim exE conjE disjE) (simp_all add: socket_waiting_def)

lemma retire_order_5_waiting:
  assumes "socket_waiting s"
    and "nn_blibfabric_shutdown env s src type p = Inr (s', cs)"
  shows "precedes (\<lambda>x. x = Usock_isidle True) (\<lambda>x. x = Alibfabric_stop c) cs \<and>
     ((retiring a s' \<or> socket_waiting s') \<or> (\<exists>x \<in> set cs. (\<lambda>x. x = Usock_isidle True) x))"
  using socket_waiting_step [OF assms]
  by (elim exE conjE disjE) simp_all

lemma retire_order_5:
  assumes "c \<noteq> a" and "retiring a s0" and "b_run_shutdown s0 evs = Inr (s1, log)"
  shows "precedes (\<lambda>x. x = Usock_isidle True) (\<lambda>x. x = Alibfabric_stop c) log"
proof (rule b_shutdown_precedes [where I = "\<lambda>s. retiring a s \<or> socket_waiting s"])
  show "retiring a s0 \<or> socket_waiting s0" using assms by simp
  show "b_run_shutdown s0 evs = Inr (s1, log)" by fact
next
  fix s env src type p s' cs
  assume "retiring a s \<or> socket_waiting s" and "nn_blibfabric_shutdown env s src type p = Inr (s', cs)"
  then show "precedes (\<lambda>x. x = Usock_isidle True) (\<lambda>x. x = Alibfabric_stop c) cs \<and>
     ((retiring a s' \<or> socket_waiting s') \<or> (\<exists>x \<in> set cs. (\<lambda>x. x = Usock_isidle True) x))"
    by (elim disjE) (rule retire_order_5_retiring [OF assms(1)], assumption+,
        rule retire_order_5_waiting, assumption+)
qed

lemma run_shutdown_empty:
  "alibfabrics s = [] \<Longrightarrow> b_run_shutdown s evs = Inr (s', log) \<Longrightarrow> alibfabrics s' = []"
proof (induction evs arbitrary: s log)
  case Nil
  then show ?case by simp
next
  case (Cons ev evs)
  obtain env src type p where ev: "ev = (env, src, type, p)" by (cases ev)
  from Cons.prems(2) ev obtain s1 cs1 log1 where
    h: "nn_blibfabric_shutdown env s src type p = Inr (s1, cs1)"
    and r: "b_run_shutdown s1 evs = Inr (s', log1)"
    by (auto split: sum.splits)
  from shutdown_report [OF h] Cons.prems(1) have "alibfabrics s1 = []" by simp
  from Cons.IH [OF this r] show ?case .
qed

lemma run_shutdown_report:
  "b_run_shutdown s evs = Inr (s', log) \<Longrightarrow> Epbase_stopped \<in> set log \<Longrightarrow>
   alibfabrics s' = []"
proof (induction evs arbitrary: s log)
  case Nil
  then show ?case by simp
next
  case (Cons ev evs)
  obtain env src type p where ev: "ev = (env, src, type, p)" by (cases ev)
  from Cons.prems(1) ev obtain s1 cs1 log1 where
    h: "nn_blibfabric_shutdown env s src type p = Inr (s1, cs1)"
    and r: "b_run_shutdown s1 evs = Inr (s', log1)" and l: "log = cs1 @ log1"
    by (auto split: sum.splits)
  show ?case
  proof (cases "Epbase_stopped \<in> set cs1")
    case True
    with shutdown_report [OF h] have "alibfabrics s1 = []" by simp
    from run_shutdown_empty [OF this r] show ?thesis .
  next
    case False
    with Cons.prems(2) l have "Epbase_stopped \<in> set log1" by simp
    from Cons.IH [OF r this] show ?thesis .
  qed
qed

lemma run_shutdown_idle:
  "b_state s \<noteq> NN_BLIBFABRIC_STATE_IDLE \<Longrightarrow> b_run_shutdown s evs = Inr (s', log) \<Longrightarrow>
   Epbase_stopped \<notin> set log \<Longrightarrow> b_state s' \<noteq> NN_BLIBFABRIC_STATE_IDLE"
proof (induction evs arbitrary: s log)
  case Nil
  then show ?case by simp
next
  case (Cons ev evs)
  obtain env src type p where ev: "ev = (env, src, type, p)" by (cases ev)
  from Cons.prems(2) ev obtain s1 cs1 log1 where
    h: "nn_blibfabric_shutdown env s src type p = Inr (s1, cs1)"
    and r: "b_run_shutdown s1 evs = Inr (s', log1)" and l: "log = cs1 @ log1"
    by (auto split: sum.splits)
  from Cons.prems(3) l have n1: "Epbase_stopped \<notin> set cs1" and n2: "Epbase_stopped \<notin> set log1"
    by simp_all
  from shutdown_report [OF h] n1 have "b_state s1 \<noteq> NN_BLIBFABRIC_STATE_IDLE" by blast
  from Cons.IH [OF this r n2] show ?case .
qed

lemma precedes_trans:
  "precedes P Q xs \<Longrightarrow> precedes Q R xs \<Longrightarrow> precedes P R xs"
  by (induction xs) (auto split: if_splits)

lemma precedes_occurs:
  "precedes P Q xs \<Longrightarrow> \<exists>x \<in> set xs. Q x \<Longrightarrow> \<exists>x \<in> set xs. P x"
  by (induction xs) (auto split: if_splits)

lemma precedes_none:
  "\<forall>x \<in> set xs. \<not> Q x \<Longrightarrow> precedes P Q xs"
  by (induction xs) auto

lemma precedes_append_eq:
  "precedes P Q (xs @ ys) =
     (if \<exists>x \<in> set xs. P x \<or> Q x then precedes P Q xs else precedes P Q ys)"
  by (induction xs) auto

lemma remove1_last:
  "remove1 x xs = [] \<Longrightarrow> c \<in> set xs \<Longrightarrow> x = c"
  "[] = remove1 x xs \<Longrightarrow> c \<in> set xs \<Longrightarrow> x = c"
  by (cases xs; auto split: if_splits)+

lemma shutdown_children_eq:
  assumes "b_state s = NN_BLIBFABRIC_STATE_STOPPING_ALIBFABRICS"
    and "\<not> (src = NN_FSM_ACTION \<and> type = NN_FSM_STOP)"
  shows "nn_blibfabric_shutdown env s src type p =
     (if \<not> (src = SRC_ALIBFABRIC \<and> type = NN_ALIBFABRIC_STOPPED) then Inl Assert_failed
      else case p of
        None \<Rightarrow> Inl Null_deref
      | Some c \<Rightarrow>
          if remove1 c (alibfabrics s) = []
          then Inr (s\<lparr>alibfabrics := [], b_state := NN_BLIBFABRIC_STATE_IDLE\<rparr>,
                    [Alibfabric_term c, Free c, Fsm_stopped_noevent, Epbase_stopped])
          else Inr (s\<lparr>alibfabrics := remove1 c (alibfabrics s)\<rparr>,
                    [Alibfabric_term c, Free c]))"
  using assms by (cases s) (auto simp: shutdown_defs split: option.split)

lemma shutdown_elsewhere:
  assumes "alibfabric s = None"
    and "b_state s \<noteq> NN_BLIBFABRIC_STATE_STOPPING_USOCK"
    and "b_state s \<noteq> NN_BLIBFABRIC_STATE_STOPPING_ALIBFABRICS"
    and "\<not> (src = NN_FSM_ACTION \<and> type = NN_FSM_STOP)"
  shows "\<exists>e. nn_blibfabric_shutdown env s src type p = Inl e"
  using assms by (cases s) (auto simp: shutdown_defs)


lemma in_remove1_or_eq:
  "c \<in> set xs \<Longrightarrow> c \<in> set (remove1 x xs) \<or> c = x"
  by (cases "c = x") simp_all

lemma precedes_stops:
  "precedes P (\<lambda>x. x = Alibfabric_term c) (map Alibfabric_stop l)"
  "precedes P (\<lambda>x. x = Epbase_stopped) (map Alibfabric_stop l)"
  by (rule precedes_none, simp)+

lemma retiring_step_full:
  assumes "retiring a s" and "nn_blibfabric_shutdown env s src type p = Inr (s', cs)"
  shows "\<exists>pre. (pre = [] \<or> pre = [Backoff_stop, Alibfabric_stop a]) \<and>
     (cs = pre @ [Alibfabric_isidle a False] \<and> retiring a s' \<and>
        alibfabrics s' = alibfabrics s \<or>
      cs = pre @ [Alibfabric_isidle a True, Alibfabric_term a, Free a, Usock_stop,
                  Usock_isidle False] \<and>
        alibfabric s' = None \<and> b_state s' = NN_BLIBFABRIC_STATE_STOPPING_USOCK \<and>
        alibfabrics s' = alibfabrics s \<or>
      cs = pre @ [Alibfabric_isidle a True, Alibfabric_term a, Free a, Usock_stop,
                  Usock_isidle True] @ map Alibfabric_stop (alibfabrics s) \<and>
        alibfabrics s \<noteq> [] \<and> alibfabric s' = None \<and>
        b_state s' = NN_BLIBFABRIC_STATE_STOPPING_ALIBFABRICS \<and>
        alibfabrics s' = alibfabrics s \<or>
      cs = pre @ [Alibfabric_isidle a True, Alibfabric_term a, Free a, Usock_stop,
                  Usock_isidle True, Fsm_stopped_noevent, Epbase_stopped] \<and>
        alibfabrics s = [] \<and> alibfabric s' = None \<and>
        b_state s' = NN_BLIBFABRIC_STATE_IDLE \<and> alibfabrics s' = [])"
proof -
  define pre where
    "pre = (if src = NN_FSM_ACTION \<and> type = NN_FSM_STOP
            then [Backoff_stop, Alibfabric_stop a] else [])"
  have pre: "pre = [] \<or> pre = [Backoff_stop, Alibfabric_stop a]"
    by (simp add: pre_def)
  from assms have a: "alibfabric s = Some a" by (simp add: retiring_def)
  from assms have st:
    "b_state s = NN_BLIBFABRIC_STATE_STOPPING_ALIBFABRIC \<or>
     src = NN_FSM_ACTION \<and> type = NN_FSM_STOP"
    using shutdown_pending_step [of s a env src type p s' cs] by (simp add: retiring_def)
  note eq = shutdown_pending_eq [OF a st, of env p, folded pre_def, unfolded Let_def]
  consider (w) "\<not> alibfabric_isidle env"
    | (u) "alibfabric_isidle env" "\<not> usock_isidle env"
    | (c) "alibfabric_isidle env" "usock_isidle env" "alibfabrics s \<noteq> []"
    | (d) "alibfabric_isidle env" "usock_isidle env" "alibfabrics s = []"
    by blast
  then show ?thesis
  proof cases
    case w
    with eq assms(2) have "cs = pre @ [Alibfabric_isidle a False]"
      and "s' = s\<lparr>b_state := NN_BLIBFABRIC_STATE_STOPPING_ALIBFABRIC\<rparr>"
      by simp_all
    with a pre show ?thesis by (auto simp: retiring_def)
  next
    case u
    with eq assms(2) have
      "cs = pre @ [Alibfabric_isidle a True, Alibfabric_term a, Free a, Usock_stop,
                   Usock_isidle False]"
      and "s' = s\<lparr>alibfabric := None, b_state := NN_BLIBFABRIC_STATE_STOPPING_USOCK\<rparr>"
      by simp_all
    with pre show ?thesis by auto
  next
    case c
    with eq assms(2) have
      "cs = pre @ [Alibfabric_isidle a True, Alibfabric_term a, Free a, Usock_stop,
                   Usock_isidle True] @ map Alibfabric_stop (alibfabrics s)"
      and "s' = s\<lparr>alibfabric := None,
                   b_state := NN_BLIBFABRIC_STATE_STOPPING_ALIBFABRICS\<rparr>"
      by simp_all
    with pre c(3) show ?thesis by auto
  next
    case d
    with eq assms(2) have
      "cs = pre @ [Alibfabric_isidle a True, Alibfabric_term a, Free a, Usock_stop,
                   Usock_isidle True, Fsm_stopped_noevent, Epbase_stopped]"
      and "s' = s\<lparr>alibfabric := None, b_state := NN_BLIBFABRIC_STATE_IDLE\<rparr>"
      by simp_all
    with pre d(3) show ?thesis by auto
  qed
qed

lemma released_step:
  assumes n: "alibfabric s = None"
    and h: "nn_blibfabric_shutdown env s src type p = Inr (s', cs)"
  shows "alibfabric s' = None \<and>
     ((\<exists>pre. (pre = [] \<or> pre = [Backoff_stop]) \<and>
         (cs = pre @ [Usock_isidle False] \<and>
            b_state s' = NN_BLIBFABRIC_STATE_STOPPING_USOCK \<and>
            alibfabrics s' = alibfabrics s \<or>
          cs = pre @ Usock_isidle True # map Alibfabric_stop (alibfabrics s) \<and>
            alibfabrics s \<noteq> [] \<and>
            b_state s' = NN_BLIBFABRIC_STATE_STOPPING_ALIBFABRICS \<and>
            alibfabrics s' = alibfabrics s \<or>
          cs = pre @ [Usock_isidle True, Fsm_stopped_noevent, Epbase_stopped] \<and>
            alibfabrics s = [] \<and> b_state s' = NN_BLIBFABRIC_STATE_IDLE \<and>
            alibfabrics s' = [])) \<or>
      (\<exists>c. b_state s = NN_BLIBFABRIC_STATE_STOPPING_ALIBFABRICS \<and>
         alibfabrics s' = remove1 c (alibfabrics s) \<and>
         (cs = [Alibfabric_term c, Free c] \<and> alibfabrics s' \<noteq> [] \<and>
            b_state s' = NN_BLIBFABRIC_STATE_STOPPING_ALIBFABRICS \<or>
          cs = [Alibfabric_term c, Free c, Fsm_stopped_noevent, Epbase_stopped] \<and>
            alibfabrics s' = [] \<and> b_state s' = NN_BLIBFABRIC_STATE_IDLE)))"
proof -
  define pre where
    "pre = (if src = NN_FSM_ACTION \<and> type = NN_FSM_STOP then [Backoff_stop] else [])"
  have pre: "pre = [] \<or> pre = [Backoff_stop]"
    by (simp add: pre_def)
  consider (wait) "b_state s = NN_BLIBFABRIC_STATE_STOPPING_USOCK \<and>
           \<not> (src = NN_FSM_ACTION \<and> type = NN_FSM_STOP) \<or>
           alibfabric s = None \<and> src = NN_FSM_ACTION \<and> type = NN_FSM_STOP"
    | (children) "b_state s = NN_BLIBFABRIC_STATE_STOPPING_ALIBFABRICS"
        "\<not> (src = NN_FSM_ACTION \<and> type = NN_FSM_STOP)"
    | (other) "b_state s \<noteq> NN_BLIBFABRIC_STATE_STOPPING_USOCK"
        "b_state s \<noteq> NN_BLIBFABRIC_STATE_STOPPING_ALIBFABRICS"
        "\<not> (src = NN_FSM_ACTION \<and> type = NN_FSM_STOP)"
    using n by blast
  then show ?thesis
  proof cases
    case wait
    note eq = shutdown_socket_wait_eq [OF wait, of env p, folded pre_def, unfolded Let_def]
    consider (w) "\<not> usock_isidle env"
      | (c) "usock_isidle env" "alibfabrics s \<noteq> []"
      | (d) "usock_isidle env" "alibfabrics s = []"
      by blast
    then show ?thesis
    proof cases
      case w
      with eq h have "cs = pre @ [Usock_isidle False]"
        and "s' = s\<lparr>b_state := NN_BLIBFABRIC_STATE_STOPPING_USOCK\<rparr>"
        by simp_all
      with n pre show ?thesis by auto
    next
      case c
      with eq h have "cs = pre @ Usock_isidle True # map Alibfabric_stop (alibfabrics s)"
        and "s' = s\<lparr>b_state := NN_BLIBFABRIC_STATE_STOPPING_ALIBFABRICS\<rparr>"
        by simp_all
      with n pre c(2) show ?thesis by auto
    next
      case d
      with eq h have "cs = pre @ [Usock_isidle True, Fsm_stopped_noevent, Epbase_stopped]"
        and "s' = s\<lparr>b_state := NN_BLIBFABRIC_STATE_IDLE\<rparr>"
        by simp_all
      with n pre d(2) show ?thesis by auto
    qed
  next
    case children
    note eq = shutdown_children_eq [OF children, of env p]
    from eq h obtain c where c: "p = Some c"
      by (cases p) (auto split: if_splits)
    show ?thesis
    proof (cases "remove1 c (alibfabrics s) = []")
      case True
      with eq h c have
        "cs = [Alibfabric_term c, Free c, Fsm_stopped_noevent, Epbase_stopped]"
        and "s' = s\<lparr>alibfabrics := [], b_state := NN_BLIBFABRIC_STATE_IDLE\<rparr>"
        by (simp_all split: if_splits)
      with n children(1) True show ?thesis by auto
    next
      case False
      with eq h c have "cs = [Alibfabric_term c, Free c]"
        and "s' = s\<lparr>alibfabrics := remove1 c (alibfabrics s)\<rparr>"
        by (simp_all split: if_splits)
      with n children(1) False show ?thesis by auto
    qed
  next
    case other
    from shutdown_elsewhere [OF n other, of env p] h show ?thesis by auto
  qed
qed


lemma idle_before_report_step:
  assumes "(\<exists>a. retiring a s) \<or>
           alibfabric s = None \<and> b_state s \<noteq> NN_BLIBFABRIC_STATE_STOPPING_ALIBFABRICS"
    and h: "nn_blibfabric_shutdown env s src type p = Inr (s', cs)"
  shows "precedes (\<lambda>x. x = Usock_isidle True) (\<lambda>x. x = Epbase_stopped) cs \<and>
     (((\<exists>a. retiring a s') \<or>
       alibfabric s' = None \<and> b_state s' \<noteq> NN_BLIBFABRIC_STATE_STOPPING_ALIBFABRICS) \<or>
      (\<exists>x \<in> set cs. x = Usock_isidle True))"
  using assms(1)
proof (elim disjE exE conjE)
  fix a
  assume "retiring a s"
  from retiring_step_full [OF this h] show ?thesis
    by (elim exE conjE disjE) (auto simp: precedes_append_eq precedes_stops)
next
  assume n: "alibfabric s = None"
    and st: "b_state s \<noteq> NN_BLIBFABRIC_STATE_STOPPING_ALIBFABRICS"
  from released_step [OF n h] st show ?thesis
    by (elim exE conjE disjE) (auto simp: precedes_append_eq precedes_stops)
qed

lemma idle_before_report:
  assumes "(\<exists>a. retiring a s0) \<or>
           alibfabric s0 = None \<and> b_state s0 \<noteq> NN_BLIBFABRIC_STATE_STOPPING_ALIBFABRICS"
    and "b_run_shutdown s0 evs = Inr (s1, log)"
  shows "precedes (\<lambda>x. x = Usock_isidle True) (\<lambda>x. x = Epbase_stopped) log"
proof (rule b_shutdown_precedes
    [where I = "\<lambda>s. (\<exists>a. retiring a s) \<or>
       alibfabric s = None \<and> b_state s \<noteq> NN_BLIBFABRIC_STATE_STOPPING_ALIBFABRICS"])
  show "(\<exists>a. retiring a s0) \<or>
        alibfabric s0 = None \<and> b_state s0 \<noteq> NN_BLIBFABRIC_STATE_STOPPING_ALIBFABRICS"
    by fact
  show "b_run_shutdown s0 evs = Inr (s1, log)" by fact
next
  fix s env src type p s' cs
  assume "(\<exists>a. retiring a s) \<or>
          alibfabric s = None \<and> b_state s \<noteq> NN_BLIBFABRIC_STATE_STOPPING_ALIBFABRICS"
    and "nn_blibfabric_shutdown env s src type p = Inr (s', cs)"
  then show "precedes (\<lambda>x. x = Usock_isidle True) (\<lambda>x. x = Epbase_stopped) cs \<and>
     (((\<exists>a. retiring a s') \<or>
       alibfabric s' = None \<and> b_state s' \<noteq> NN_BLIBFABRIC_STATE_STOPPING_ALIBFABRICS) \<or>
      (\<exists>x \<in> set cs. x = Usock_isidle True))"
    by (rule idle_before_report_step)
qed

lemma child_stop_before_term_step:
  assumes ca: "c \<noteq> a"
    and i: "c \<in> set (alibfabrics s) \<and>
           (retiring a s \<or>
            alibfabric s = None \<and> b_state s \<noteq> NN_BLIBFABRIC_STATE_STOPPING_ALIBFABRICS)"
    and h: "nn_blibfabric_shutdown env s src type p = Inr (s', cs)"
  shows "precedes (\<lambda>x. x = Alibfabric_stop c) (\<lambda>x. x = Alibfabric_term c) cs \<and>
     ((c \<in> set (alibfabrics s') \<and>
       (retiring a s' \<or>
        alibfabric s' = None \<and> b_state s' \<noteq> NN_BLIBFABRIC_STATE_STOPPING_ALIBFABRICS)) \<or>
      (\<exists>x \<in> set cs. x = Alibfabric_stop c))"
proof -
  from i have c: "c \<in> set (alibfabrics s)" by simp
  from i show ?thesis
  proof (elim disjE conjE)
    assume "retiring a s"
    from retiring_step_full [OF this h] ca c show ?thesis
      by (elim exE conjE disjE) (auto simp: precedes_append_eq precedes_stops)
  next
    assume n: "alibfabric s = None"
      and st: "b_state s \<noteq> NN_BLIBFABRIC_STATE_STOPPING_ALIBFABRICS"
    from released_step [OF n h] st ca c show ?thesis
      by (elim exE conjE disjE) (auto simp: precedes_append_eq precedes_stops)
  qed
qed

lemma child_stop_before_term:
  assumes "c \<noteq> a" and "c \<in> set (alibfabrics s0)" and "retiring a s0"
    and "b_run_shutdown s0 evs = Inr (s1, log)"
  shows "precedes (\<lambda>x. x = Alibfabric_stop c) (\<lambda>x. x = Alibfabric_term c) log"
proof (rule b_shutdown_precedes
    [where I = "\<lambda>s. c \<in> set (alibfabrics s) \<and>
       (retiring a s \<or>
        alibfabric s = None \<and> b_state s \<noteq> NN_BLIBFABRIC_STATE_STOPPING_ALIBFABRICS)"])
  show "c \<in> set (alibfabrics s0) \<and>
       (retiring a s0 \<or>
        alibfabric s0 = None \<and> b_state s0 \<noteq> NN_BLIBFABRIC_STATE_STOPPING_ALIBFABRICS)"
    using assms by simp
  show "b_run_shutdown s0 evs = Inr (s1, log)" by fact
next
  fix s env src type p s' cs
  assume "c \<in> set (alibfabrics s) \<and>
       (retiring a s \<or>
        alibfabric s = None \<and> b_state s \<noteq> NN_BLIBFABRIC_STATE_STOPPING_ALIBFABRICS)"
    and "nn_blibfabric_shutdown env s src type p = Inr (s', cs)"
  then show "precedes (\<lambda>x. x = Alibfabric_stop c) (\<lambda>x. x = Alibfabric_term c) cs \<and>
     ((c \<in> set (alibfabrics s') \<and>
       (retiring a s' \<or>
        alibfabric s' = None \<and> b_state s' \<noteq> NN_BLIBFABRIC_STATE_STOPPING_ALIBFABRICS)) \<or>
      (\<exists>x \<in> set cs. x = Alibfabric_stop c))"
    by (rule child_stop_before_term_step [OF assms(1)])
qed

lemma child_term_before_report_step:
  assumes i: "c \<in> set (alibfabrics s) \<and> (retiring a s \<or> alibfabric s = None)"
    and h: "nn_blibfabric_shutdown env s src type p = Inr (s', cs)"
  shows "precedes (\<lambda>x. x = Alibfabric_term c) (\<lambda>x. x = Epbase_stopped) cs \<and>
     ((c \<in> set (alibfabrics s') \<and> (retiring a s' \<or> alibfabric s' = None)) \<or>
      (\<exists>x \<in> set cs. x = Alibfabric_term c))"
proof -
  from i have c: "c \<in> set (alibfabrics s)" by simp
  from i show ?thesis
  proof (elim disjE conjE)
    assume "retiring a s"
    from retiring_step_full [OF this h] c show ?thesis
      by (elim exE conjE disjE) (auto simp: precedes_append_eq precedes_stops)
  next
    assume "alibfabric s = None"
    from released_step [OF this h] c show ?thesis
      by (elim exE conjE disjE)
         (auto simp: precedes_append_eq precedes_stops
            dest: remove1_last in_remove1_or_eq)
  qed
qed

lemma child_term_before_report:
  assumes "c \<in> set (alibfabrics s0)" and "retiring a s0"
    and "b_run_shutdown s0 evs = Inr (s1, log)"
  shows "precedes (\<lambda>x. x = Alibfabric_term c) (\<lambda>x. x = Epbase_stopped) log"
proof (rule b_shutdown_precedes
    [where I = "\<lambda>s. c \<in> set (alibfabrics s) \<and> (retiring a s \<or> alibfabric s = None)"])
  show "c \<in> set (alibfabrics s0) \<and> (retiring a s0 \<or> alibfabric s0 = None)"
    using assms by simp
  show "b_run_shutdown s0 evs = Inr (s1, log)" by fact
next
  fix s env src type p s' cs
  assume "c \<in> set (alibfabrics s) \<and> (retiring a s \<or> alibfabric s = None)"
    and "nn_blibfabric_shutdown env s src type p = Inr (s', cs)"
  then show "precedes (\<lambda>x. x = Alibfabric_term c) (\<lambda>x. x = Epbase_stopped) cs \<and>
     ((c \<in> set (alibfabrics s') \<and> (retiring a s' \<or> alibfabric s' = None)) \<or>
      (\<exists>x \<in> set cs. x = Alibfabric_term c))"
    by (rule child_term_before_report_step)
qed


lemma b_shutdown_follows:
  assumes step: "\<And>s env src type p s' cs.
      I s \<Longrightarrow> nn_blibfabric_shutdown env s src type p = Inr (s', cs) \<Longrightarrow>
      (\<forall>x \<in> set cs. \<not> P x) \<and> I s' \<or> (\<exists>x \<in> set cs. R x)"
  shows "I s \<Longrightarrow> b_run_shutdown s evs = Inr (s', log) \<Longrightarrow>
     \<exists>x \<in> set log. P x \<Longrightarrow> \<exists>x \<in> set log. R x"
proof (induction evs arbitrary: s log)
  case Nil
  then show ?case by simp
next
  case (Cons ev evs)
  obtain env src type p where ev: "ev = (env, src, type, p)" by (cases ev)
  from Cons.prems(2) ev obtain s1 cs1 log1 where
    h: "nn_blibfabric_shutdown env s src type p = Inr (s1, cs1)"
    and r: "b_run_shutdown s1 evs = Inr (s', log1)" and l: "log = cs1 @ log1"
    by (auto split: sum.splits)
  from step [OF Cons.prems(1) h] show ?case
  proof
    assume a: "(\<forall>x \<in> set cs1. \<not> P x) \<and> I s1"
    with Cons.prems(3) l have "\<exists>x \<in> set log1. P x" by auto
    from Cons.IH [OF _ r this] a l show ?thesis by auto
  next
    assume "\<exists>x \<in> set cs1. R x"
    with l show ?thesis by auto
  qed
qed

lemma idle_then_retired:
  assumes "retiring a s0" and "b_run_shutdown s0 evs = Inr (s1, log)"
    and "Alibfabric_isidle a True \<in> set log"
  shows "Alibfabric_term a \<in> set log" and "Usock_stop \<in> set log"
proof -
  from assms(3) have ex: "\<exists>x \<in> set log. x = Alibfabric_isidle a True" by simp
  have "\<exists>x \<in> set log. x = Alibfabric_term a"
  proof (rule b_shutdown_follows [where I = "retiring a"
        and P = "\<lambda>x. x = Alibfabric_isidle a True", OF _ assms(1,2) ex])
    fix s env src type p s' cs
    assume "retiring a s" and "nn_blibfabric_shutdown env s src type p = Inr (s', cs)"
    from retiring_step_full [OF this]
    show "(\<forall>x \<in> set cs. \<not> x = Alibfabric_isidle a True) \<and> retiring a s' \<or>
          (\<exists>x \<in> set cs. x = Alibfabric_term a)"
      by (elim exE conjE disjE) auto
  qed
  then show "Alibfabric_term a \<in> set log" by simp
  have "\<exists>x \<in> set log. x = Usock_stop"
  proof (rule b_shutdown_follows [where I = "retiring a"
        and P = "\<lambda>x. x = Alibfabric_isidle a True", OF _ assms(1,2) ex])
    fix s env src type p s' cs
    assume "retiring a s" and "nn_blibfabric_shutdown env s src type p = Inr (s', cs)"
    from retiring_step_full [OF this]
    show "(\<forall>x \<in> set cs. \<not> x = Alibfabric_isidle a True) \<and> retiring a s' \<or>
          (\<exists>x \<in> set cs. x = Usock_stop)"
      by (elim exE conjE disjE) auto
  qed
  then show "Usock_stop \<in> set log" by simp
qed

lemma idle_then_children_stopped:
  assumes "c \<in> set (alibfabrics s0)" and "retiring a s0"
    and "b_run_shutdown s0 evs = Inr (s1, log)"
    and "Usock_isidle True \<in> set log"
  shows "Alibfabric_stop c \<in> set log"
proof -
  from assms(4) have ex: "\<exists>x \<in> set log. x = Usock_isidle True" by simp
  from assms(1,2) have i: "c \<in> set (alibfabrics s0) \<and>
       (retiring a s0 \<or>
        alibfabric s0 = None \<and> b_state s0 \<noteq> NN_BLIBFABRIC_STATE_STOPPING_ALIBFABRICS)"
    by simp
  have "\<exists>x \<in> set log. x = Alibfabric_stop c"
  proof (rule b_shutdown_follows [where I = "\<lambda>s. c \<in> set (alibfabrics s) \<and>
       (retiring a s \<or>
        alibfabric s = None \<and> b_state s \<noteq> NN_BLIBFABRIC_STATE_STOPPING_ALIBFABRICS)"
        and P = "\<lambda>x. x = Usock_isidle True", OF _ i assms(3) ex])
    fix s env src type p s' cs
    assume i: "c \<in> set (alibfabrics s) \<and>
       (retiring a s \<or>
        alibfabric s = None \<and> b_state s \<noteq> NN_BLIBFABRIC_STATE_STOPPING_ALIBFABRICS)"
      and h: "nn_blibfabric_shutdown env s src type p = Inr (s', cs)"
    from i have c: "c \<in> set (alibfabrics s)" by simp
    from i show "(\<forall>x \<in> set cs. \<not> x = Usock_isidle True) \<and>
         (c \<in> set (alibfabrics s') \<and>
          (retiring a s' \<or>
           alibfabric s' = None \<and>
           b_state s' \<noteq> NN_BLIBFABRIC_STATE_STOPPING_ALIBFABRICS)) \<or>
         (\<exists>x \<in> set cs. x = Alibfabric_stop c)"
    proof (elim disjE conjE)
      assume "retiring a s"
      from retiring_step_full [OF this h] c show ?thesis
        by (elim exE conjE disjE) auto
    next
      assume n: "alibfabric s = None"
        and st: "b_state s \<noteq> NN_BLIBFABRIC_STATE_STOPPING_ALIBFABRICS"
      from released_step [OF n h] st c show ?thesis
        by (elim exE conjE disjE) auto
    qed
  qed
  then show ?thesis by simp
qed

lemma idle_then_reported:
  assumes "alibfabrics s0 = []"
    and "(\<exists>a. retiring a s0) \<or>
         alibfabric s0 = None \<and> b_state s0 \<noteq> NN_BLIBFABRIC_STATE_STOPPING_ALIBFABRICS"
    and "b_run_shutdown s0 evs = Inr (s1, log)"
    and "Usock_isidle True \<in> set log"
  shows "Epbase_stopped \<in> set log"
proof -
  from assms(4) have ex: "\<exists>x \<in> set log. x = Usock_isidle True" by simp
  from assms(1,2) have i: "alibfabrics s0 = [] \<and>
       ((\<exists>a. retiring a s0) \<or>
        alibfabric s0 = None \<and> b_state s0 \<noteq> NN_BLIBFABRIC_STATE_STOPPING_ALIBFABRICS)"
    by simp
  have "\<exists>x \<in> set log. x = Epbase_stopped"
  proof (rule b_shutdown_follows [where I = "\<lambda>s. alibfabrics s = [] \<and>
       ((\<exists>a. retiring a s) \<or>
        alibfabric s = None \<and> b_state s \<noteq> NN_BLIBFABRIC_STATE_STOPPING_ALIBFABRICS)"
        and P = "\<lambda>x. x = Usock_isidle True", OF _ i assms(3) ex])
    fix s env src type p s' cs
    assume i: "alibfabrics s = [] \<and>
       ((\<exists>a. retiring a s) \<or>
        alibfabric s = None \<and> b_state s \<noteq> NN_BLIBFABRIC_STATE_STOPPING_ALIBFABRICS)"
      and h: "nn_blibfabric_shutdown env s src type p = Inr (s', cs)"
    from i have e: "alibfabrics s = []" by simp
    from i show "(\<forall>x \<in> set cs. \<not> x = Usock_isidle True) \<and>
         (alibfabrics s' = [] \<and>
          ((\<exists>a. retiring a s') \<or>
           alibfabric s' = None \<and>
           b_state s' \<noteq> NN_BLIBFABRIC_STATE_STOPPING_ALIBFABRICS)) \<or>
         (\<exists>x \<in> set cs. x = Epbase_stopped)"
    proof (elim disjE conjE exE)
      fix a
      assume "retiring a s"
      from retiring_step_full [OF this h] e show ?thesis
        by (elim exE conjE disjE) auto
    next
      assume n: "alibfabric s = None"
        and st: "b_state s \<noteq> NN_BLIBFABRIC_STATE_STOPPING_ALIBFABRICS"
      from released_step [OF n h] st e show ?thesis
        by (elim exE conjE disjE) auto
    qed
  qed
  then show ?thesis by simp
qed

lemma stop_request_calls:
  assumes "b_inv s"
    and h: "nn_blibfabric_shutdown env s NN_FSM_ACTION NN_FSM_STOP p = Inr (s', cs)"
  shows "(\<forall>a. alibfabric s = Some a \<longrightarrow>
            (\<exists>b rest. cs = Backoff_stop # Alibfabric_stop a # Alibfabric_isidle a b # rest)) \<and>
         (alibfabric s = None \<longrightarrow> (\<exists>b rest. cs = Backoff_stop # Usock_isidle b # rest))"
proof (intro conjI allI impI)
  fix a
  assume a: "alibfabric s = Some a"
  with assms(1) have "retiring a s" by (simp add: b_inv_def retiring_def)
  from retiring_step [OF this h]
  show "\<exists>b rest. cs = Backoff_stop # Alibfabric_stop a # Alibfabric_isidle a b # rest"
    by (elim exE conjE disjE) auto
next
  assume n: "alibfabric s = None"
  with assms(1) have st: "b_state s \<noteq> NN_BLIBFABRIC_STATE_STOPPING_ALIBFABRICS"
    by (auto simp: b_inv_def)
  from shutdown_stop_first [OF h] obtain rest where r: "cs = Backoff_stop # rest" by blast
  from released_step [OF n h] st r
  show "\<exists>b rest. cs = Backoff_stop # Usock_isidle b # rest"
    by (elim exE conjE disjE) auto
qed

text \<open>
  Claim C3. Let a listener in any state it can be in between two events of its handler
  receive the stop request, followed by whatever events. Then the first call made is
  the stop of the backoff timer. If a connection is being accepted, its machine is
  asked to stop at once, before it is found idle; it is found idle before it is
  terminated, terminated before the listening socket is stopped, and the socket is
  stopped before it is found idle; and once the machine has been found idle it has
  been terminated and the socket has been stopped. If no connection is being accepted,
  the socket is asked at once whether it is idle. The socket is stopped, and found
  idle, before any accepted connection is asked to stop; once the socket has been
  found idle, every accepted connection has been asked to stop, and the endpoint has
  reported itself stopped if there is none. Every accepted connection is asked to stop
  before it is terminated and terminated before the endpoint reports itself stopped;
  the termination of the connection being accepted, the stop of the socket and the
  finding that the socket is idle all come before that report. So once the endpoint
  has reported itself stopped, each of these calls has been made, and the list of
  accepted connections is empty.
\<close>

theorem shutdown_is_ordered:
  assumes "b_inv self"
    and "b_run_shutdown self ((env, NN_FSM_ACTION, NN_FSM_STOP, srcptr) # evs) =
           Inr (self', log)"
  shows "(\<exists>rest. log = Backoff_stop # rest) \<and>
     (\<forall>a. alibfabric self = Some a \<longrightarrow>
        precedes (\<lambda>x. x = Alibfabric_stop a) (\<lambda>x. x = Alibfabric_isidle a True) log \<and>
        precedes (\<lambda>x. x = Alibfabric_isidle a True) (\<lambda>x. x = Alibfabric_term a) log \<and>
        precedes (\<lambda>x. x = Alibfabric_term a) (\<lambda>x. x = Usock_stop) log \<and>
        precedes (\<lambda>x. x = Usock_stop) (\<lambda>x. x = Usock_isidle True) log \<and>
        precedes (\<lambda>x. x = Alibfabric_term a) (\<lambda>x. x = Epbase_stopped) log \<and>
        precedes (\<lambda>x. x = Usock_stop) (\<lambda>x. x = Epbase_stopped) log) \<and>
     precedes (\<lambda>x. x = Usock_isidle True) (\<lambda>x. x = Epbase_stopped) log \<and>
     (\<forall>a. alibfabric self = Some a \<longrightarrow>
        (\<exists>b rest. log = Backoff_stop # Alibfabric_stop a # Alibfabric_isidle a b # rest) \<and>
        (Alibfabric_isidle a True \<in> set log \<longrightarrow>
           Alibfabric_term a \<in> set log \<and> Usock_stop \<in> set log)) \<and>
     (alibfabric self = None \<longrightarrow> (\<exists>b rest. log = Backoff_stop # Usock_isidle b # rest)) \<and>
     (Usock_isidle True \<in> set log \<longrightarrow>
        (\<forall>c \<in> set (alibfabrics self). Alibfabric_stop c \<in> set log) \<and>
        (alibfabrics self = [] \<longrightarrow> Epbase_stopped \<in> set log)) \<and>
     (\<forall>c \<in> set (alibfabrics self).
        precedes (\<lambda>x. x = Usock_stop) (\<lambda>x. x = Alibfabric_stop c) log \<and>
        precedes (\<lambda>x. x = Usock_isidle True) (\<lambda>x. x = Alibfabric_stop c) log \<and>
        precedes (\<lambda>x. x = Alibfabric_stop c) (\<lambda>x. x = Alibfabric_term c) log \<and>
        precedes (\<lambda>x. x = Alibfabric_term c) (\<lambda>x. x = Epbase_stopped) log) \<and>
     (Epbase_stopped \<in> set log \<longrightarrow>
        alibfabrics self' = [] \<and> Usock_isidle True \<in> set log \<and>
        (\<forall>a. alibfabric self = Some a \<longrightarrow>
           Alibfabric_stop a \<in> set log \<and> Alibfabric_isidle a True \<in> set log \<and>
           Alibfabric_term a \<in> set log \<and> Usock_stop \<in> set log) \<and>
        (\<forall>c \<in> set (alibfabrics self).
           Alibfabric_stop c \<in> set log \<and> Alibfabric_term c \<in> set log))"
proof -
  from assms(2) obtain s1 cs0 log1 where
    h: "nn_blibfabric_shutdown env self NN_FSM_ACTION NN_FSM_STOP srcptr = Inr (s1, cs0)"
    and l: "log = cs0 @ log1"
    by (auto split: sum.splits)
  from shutdown_stop_first [OF h] l have first: "\<exists>rest. log = Backoff_stop # rest"
    by auto
  from assms(1) have start:
    "(\<exists>a. retiring a self) \<or>
     alibfabric self = None \<and> b_state self \<noteq> NN_BLIBFABRIC_STATE_STOPPING_ALIBFABRICS"
    by (auto simp: b_inv_def retiring_def split: option.splits)
  from start assms(2) have idle:
    "precedes (\<lambda>x. x = Usock_isidle True) (\<lambda>x. x = Epbase_stopped) log"
    by (rule idle_before_report)
  have pending: "\<forall>a. alibfabric self = Some a \<longrightarrow>
        precedes (\<lambda>x. x = Alibfabric_stop a) (\<lambda>x. x = Alibfabric_isidle a True) log \<and>
        precedes (\<lambda>x. x = Alibfabric_isidle a True) (\<lambda>x. x = Alibfabric_term a) log \<and>
        precedes (\<lambda>x. x = Alibfabric_term a) (\<lambda>x. x = Usock_stop) log \<and>
        precedes (\<lambda>x. x = Usock_stop) (\<lambda>x. x = Usock_isidle True) log \<and>
        precedes (\<lambda>x. x = Alibfabric_term a) (\<lambda>x. x = Epbase_stopped) log \<and>
        precedes (\<lambda>x. x = Usock_stop) (\<lambda>x. x = Epbase_stopped) log"
  proof (intro allI impI)
    fix a
    assume a: "alibfabric self = Some a"
    with assms(1) have r: "retiring a self" by (simp add: b_inv_def retiring_def)
    from retiring_step [OF r h] obtain post where
      "cs0 = [Backoff_stop, Alibfabric_stop a] @ post" by auto
    with l have p1:
      "precedes (\<lambda>x. x = Alibfabric_stop a) (\<lambda>x. x = Alibfabric_isidle a True) log"
      by simp
    from r assms(2) have p2:
      "precedes (\<lambda>x. x = Alibfabric_isidle a True) (\<lambda>x. x = Alibfabric_term a) log"
      by (rule retire_order_1)
    from r assms(2) have p3:
      "precedes (\<lambda>x. x = Alibfabric_term a) (\<lambda>x. x = Usock_stop) log"
      by (rule retire_order_2)
    from r assms(2) have p4:
      "precedes (\<lambda>x. x = Usock_stop) (\<lambda>x. x = Usock_isidle True) log"
      by (rule retire_order_3)
    from p4 idle have p6:
      "precedes (\<lambda>x. x = Usock_stop) (\<lambda>x. x = Epbase_stopped) log"
      by (rule precedes_trans)
    from p3 p6 have p5:
      "precedes (\<lambda>x. x = Alibfabric_term a) (\<lambda>x. x = Epbase_stopped) log"
      by (rule precedes_trans)
    from p1 p2 p3 p4 p5 p6
    show "precedes (\<lambda>x. x = Alibfabric_stop a) (\<lambda>x. x = Alibfabric_isidle a True) log \<and>
        precedes (\<lambda>x. x = Alibfabric_isidle a True) (\<lambda>x. x = Alibfabric_term a) log \<and>
        precedes (\<lambda>x. x = Alibfabric_term a) (\<lambda>x. x = Usock_stop) log \<and>
        precedes (\<lambda>x. x = Usock_stop) (\<lambda>x. x = Usock_isidle True) log \<and>
        precedes (\<lambda>x. x = Alibfabric_term a) (\<lambda>x. x = Epbase_stopped) log \<and>
        precedes (\<lambda>x. x = Usock_stop) (\<lambda>x. x = Epbase_stopped) log"
      by (intro conjI)
  qed
  have children: "\<forall>c \<in> set (alibfabrics self).
        precedes (\<lambda>x. x = Usock_stop) (\<lambda>x. x = Alibfabric_stop c) log \<and>
        precedes (\<lambda>x. x = Usock_isidle True) (\<lambda>x. x = Alibfabric_stop c) log \<and>
        precedes (\<lambda>x. x = Alibfabric_stop c) (\<lambda>x. x = Alibfabric_term c) log \<and>
        precedes (\<lambda>x. x = Alibfabric_term c) (\<lambda>x. x = Epbase_stopped) log"
  proof (intro ballI)
    fix c
    assume c: "c \<in> set (alibfabrics self)"
    with assms(1) obtain a where r: "retiring a self" and ca: "c \<noteq> a"
      by (auto simp: b_inv_def retiring_def split: option.splits)
    from ca r assms(2) have q1:
      "precedes (\<lambda>x. x = Usock_stop) (\<lambda>x. x = Alibfabric_stop c) log"
      by (rule retire_order_4)
    from ca r assms(2) have q2:
      "precedes (\<lambda>x. x = Usock_isidle True) (\<lambda>x. x = Alibfabric_stop c) log"
      by (rule retire_order_5)
    from ca c r assms(2) have q3:
      "precedes (\<lambda>x. x = Alibfabric_stop c) (\<lambda>x. x = Alibfabric_term c) log"
      by (rule child_stop_before_term)
    from c r assms(2) have q4:
      "precedes (\<lambda>x. x = Alibfabric_term c) (\<lambda>x. x = Epbase_stopped) log"
      by (rule child_term_before_report)
    from q1 q2 q3 q4
    show "precedes (\<lambda>x. x = Usock_stop) (\<lambda>x. x = Alibfabric_stop c) log \<and>
        precedes (\<lambda>x. x = Usock_isidle True) (\<lambda>x. x = Alibfabric_stop c) log \<and>
        precedes (\<lambda>x. x = Alibfabric_stop c) (\<lambda>x. x = Alibfabric_term c) log \<and>
        precedes (\<lambda>x. x = Alibfabric_term c) (\<lambda>x. x = Epbase_stopped) log"
      by (intro conjI)
  qed
  have reported: "Epbase_stopped \<in> set log \<longrightarrow>
        alibfabrics self' = [] \<and> Usock_isidle True \<in> set log \<and>
        (\<forall>a. alibfabric self = Some a \<longrightarrow>
           Alibfabric_stop a \<in> set log \<and> Alibfabric_isidle a True \<in> set log \<and>
           Alibfabric_term a \<in> set log \<and> Usock_stop \<in> set log) \<and>
        (\<forall>c \<in> set (alibfabrics self).
           Alibfabric_stop c \<in> set log \<and> Alibfabric_term c \<in> set log)"
  proof (intro impI conjI allI ballI)
    assume e: "Epbase_stopped \<in> set log"
    with assms(2) show "alibfabrics self' = []" by (rule run_shutdown_report)
    from e have ex: "\<exists>x \<in> set log. x = Epbase_stopped" by simp
    from precedes_occurs [OF idle ex] show i: "Usock_isidle True \<in> set log" by simp
    {
      fix a
      assume a: "alibfabric self = Some a"
      from pending a have
        p1: "precedes (\<lambda>x. x = Alibfabric_stop a) (\<lambda>x. x = Alibfabric_isidle a True) log"
        and p2: "precedes (\<lambda>x. x = Alibfabric_isidle a True) (\<lambda>x. x = Alibfabric_term a) log"
        and p5: "precedes (\<lambda>x. x = Alibfabric_term a) (\<lambda>x. x = Epbase_stopped) log"
        and p6: "precedes (\<lambda>x. x = Usock_stop) (\<lambda>x. x = Epbase_stopped) log"
        by blast+
      from precedes_occurs [OF p6 ex] show "Usock_stop \<in> set log" by simp
      from precedes_occurs [OF p5 ex] show t: "Alibfabric_term a \<in> set log" by simp
      then have "\<exists>x \<in> set log. x = Alibfabric_term a" by simp
      from precedes_occurs [OF p2 this] show d: "Alibfabric_isidle a True \<in> set log" by simp
      then have "\<exists>x \<in> set log. x = Alibfabric_isidle a True" by simp
      from precedes_occurs [OF p1 this] show "Alibfabric_stop a \<in> set log" by simp
    }
    {
      fix c
      assume c: "c \<in> set (alibfabrics self)"
      with children have
        q3: "precedes (\<lambda>x. x = Alibfabric_stop c) (\<lambda>x. x = Alibfabric_term c) log"
        and q4: "precedes (\<lambda>x. x = Alibfabric_term c) (\<lambda>x. x = Epbase_stopped) log"
        by blast+
      from precedes_occurs [OF q4 ex] show t: "Alibfabric_term c \<in> set log" by simp
      then have "\<exists>x \<in> set log. x = Alibfabric_term c" by simp
      from precedes_occurs [OF q3 this] show "Alibfabric_stop c \<in> set log" by simp
    }
  qed
  have performed: "\<forall>a. alibfabric self = Some a \<longrightarrow>
        (\<exists>b rest. log = Backoff_stop # Alibfabric_stop a # Alibfabric_isidle a b # rest) \<and>
        (Alibfabric_isidle a True \<in> set log \<longrightarrow>
           Alibfabric_term a \<in> set log \<and> Usock_stop \<in> set log)"
  proof (intro allI impI conjI)
    fix a
    assume a: "alibfabric self = Some a"
    with assms(1) have r: "retiring a self" by (simp add: b_inv_def retiring_def)
    from stop_request_calls [OF assms(1) h] a l
    show "\<exists>b rest. log = Backoff_stop # Alibfabric_stop a # Alibfabric_isidle a b # rest"
      by auto
    assume "Alibfabric_isidle a True \<in> set log"
    with r assms(2) show "Alibfabric_term a \<in> set log" and "Usock_stop \<in> set log"
      by (rule idle_then_retired)+
  qed
  have unaccepting:
    "alibfabric self = None \<longrightarrow> (\<exists>b rest. log = Backoff_stop # Usock_isidle b # rest)"
    using stop_request_calls [OF assms(1) h] l by auto
  have fanned: "Usock_isidle True \<in> set log \<longrightarrow>
        (\<forall>c \<in> set (alibfabrics self). Alibfabric_stop c \<in> set log) \<and>
        (alibfabrics self = [] \<longrightarrow> Epbase_stopped \<in> set log)"
  proof (intro impI conjI ballI)
    assume i: "Usock_isidle True \<in> set log"
    {
      fix c
      assume c: "c \<in> set (alibfabrics self)"
      with assms(1) obtain a where r: "retiring a self"
        by (auto simp: b_inv_def retiring_def split: option.splits)
      from c r assms(2) i show "Alibfabric_stop c \<in> set log"
        by (rule idle_then_children_stopped)
    }
    assume "alibfabrics self = []"
    from this start assms(2) i show "Epbase_stopped \<in> set log"
      by (rule idle_then_reported)
  qed
  from first pending idle performed unaccepting fanned children reported show ?thesis
    by (intro conjI)
qed


theorem shutdown_is_ordered_witness:
  "b_inv \<lparr>b_state = NN_BLIBFABRIC_STATE_ACTIVE, alibfabric = Some 3, alibfabrics = [1, 2]\<rparr> \<and>
   b_run_shutdown
     \<lparr>b_state = NN_BLIBFABRIC_STATE_ACTIVE, alibfabric = Some 3, alibfabrics = [1, 2]\<rparr>
     [((all_fine 0)\<lparr>alibfabric_isidle := False\<rparr>, NN_FSM_ACTION, NN_FSM_STOP, None),
      ((all_fine 0)\<lparr>usock_isidle := False\<rparr>, SRC_ALIBFABRIC, NN_ALIBFABRIC_STOPPED, Some 3),
      (all_fine 0, SRC_USOCK, NN_USOCK_STOPPED, None),
      (all_fine 0, SRC_ALIBFABRIC, NN_ALIBFABRIC_STOPPED, Some 2),
      (all_fine 0, SRC_ALIBFABRIC, NN_ALIBFABRIC_STOPPED, Some 1)] =
     Inr (\<lparr>b_state = NN_BLIBFABRIC_STATE_IDLE, alibfabric = None, alibfabrics = []\<rparr>,
          [Backoff_stop, Alibfabric_stop 3, Alibfabric_isidle 3 False,
           Alibfabric_isidle 3 True, Alibfabric_term 3, Free 3, Usock_stop,
           Usock_isidle False, Usock_isidle True, Alibfabric_stop 1,
           Alibfabric_stop 2, Alibfabric_term 2, Free 2, Alibfabric_term 1,
           Free 1, Fsm_stopped_noevent, Epbase_stopped]) \<and>
   precedes (\<lambda>x. x = Alibfabric_term 3) (\<lambda>x. x = Usock_stop)
     [Backoff_stop, Alibfabric_stop 3, Alibfabric_isidle 3 False,
      Alibfabric_isidle 3 True, Alibfabric_term 3, Free 3, Usock_stop,
      Usock_isidle False, Usock_isidle True, Alibfabric_stop 1,
      Alibfabric_stop 2, Alibfabric_term 2, Free 2, Alibfabric_term 1,
      Free 1, Fsm_stopped_noevent, Epbase_stopped] \<and>
   precedes (\<lambda>x. x = Usock_isidle True) (\<lambda>x. x = Alibfabric_stop 1)
     [Backoff_stop, Alibfabric_stop 3, Alibfabric_isidle 3 False,
      Alibfabric_isidle 3 True, Alibfabric_term 3, Free 3, Usock_stop,
      Usock_isidle False, Usock_isidle True, Alibfabric_stop 1,
      Alibfabric_stop 2, Alibfabric_term 2, Free 2, Alibfabric_term 1,
      Free 1, Fsm_stopped_noevent, Epbase_stopped] \<and>
   precedes (\<lambda>x. x = Alibfabric_term 1) (\<lambda>x. x = Epbase_stopped)
     [Backoff_stop, Alibfabric_stop 3, Alibfabric_isidle 3 False,
      Alibfabric_isidle 3 True, Alibfabric_term 3, Free 3, Usock_stop,
      Usock_isidle False, Usock_isidle True, Alibfabric_stop 1,
      Alibfabric_stop 2, Alibfabric_term 2, Free 2, Alibfabric_term 1,
      Free 1, Fsm_stopped_noevent, Epbase_stopped]"
  using shutdown_is_ordered
    [of "\<lparr>b_state = NN_BLIBFABRIC_STATE_ACTIVE, alibfabric = Some 3, alibfabrics = [1, 2]\<rparr>"
      "(all_fine 0)\<lparr>alibfabric_isidle := False\<rparr>" None
      "[((all_fine 0)\<lparr>usock_isidle := False\<rparr>, SRC_ALIBFABRIC, NN_ALIBFABRIC_STOPPED, Some 3),
        (all_fine 0, SRC_USOCK, NN_USOCK_STOPPED, None),
        (all_fine 0, SRC_ALIBFABRIC, NN_ALIBFABRIC_STOPPED, Some 2),
        (all_fine 0, SRC_ALIBFABRIC, NN_ALIBFABRIC_STOPPED, Some 1)]"
      "\<lparr>b_state = NN_BLIBFABRIC_STATE_IDLE, alibfabric = None, alibfabrics = []\<rparr>"
      "[Backoff_stop, Alibfabric_stop 3, Alibfabric_isidle 3 False,
        Alibfabric_isidle 3 True, Alibfabric_term 3, Free 3, Usock_stop,
        Usock_isidle False, Usock_isidle True, Alibfabric_stop 1,
        Alibfabric_stop 2, Alibfabric_term 2, Free 2, Alibfabric_term 1,
        Free 1, Fsm_stopped_noevent, Epbase_stopped]"]
  by (simp add: b_inv_def shutdown_defs all_fine_def)

text \<open>
  Claim C10. \<^verbatim>\<open>nn_blibfabric_destroy\<close> aborts on an assertion, having released
  nothing (it has called at most \<^verbatim>\<open>nn_list_term\<close>), unless the state is IDLE and
  no connection is being accepted; in that case it releases the socket, the timer, the
  bases and the object. A listener that has handled its start event and, while
  shutting down, has not yet reported itself stopped is not in IDLE, so destroying it
  aborts on the first assertion.
\<close>

theorem destroy_requires_stopped:
  "(b_state self \<noteq> NN_BLIBFABRIC_STATE_IDLE \<or> alibfabric self \<noteq> None \<longrightarrow>
      snd (nn_blibfabric_destroy self) = Some Assert_failed \<and>
      set (fst (nn_blibfabric_destroy self)) \<inter> releases = {}) \<and>
   (b_state self = NN_BLIBFABRIC_STATE_IDLE \<and> alibfabric self = None \<longrightarrow>
      nn_blibfabric_destroy self =
        ([List_term, Usock_term, Backoff_term, Epbase_term, Fsm_term, Free_self], None)) \<and>
   (b_run cfg s0 (ev # evs) = Inr (s1, log1) \<and>
    b_run_shutdown s1 evs' = Inr (s2, log2) \<and> Epbase_stopped \<notin> set log2 \<longrightarrow>
      nn_blibfabric_destroy s2 = ([], Some Assert_failed))"
proof (intro conjI impI)
  assume "b_state self \<noteq> NN_BLIBFABRIC_STATE_IDLE \<or> alibfabric self \<noteq> None"
  then show "snd (nn_blibfabric_destroy self) = Some Assert_failed"
    and "set (fst (nn_blibfabric_destroy self)) \<inter> releases = {}"
    by (auto simp: nn_blibfabric_destroy_def releases_def)
next
  assume "b_state self = NN_BLIBFABRIC_STATE_IDLE \<and> alibfabric self = None"
  then show "nn_blibfabric_destroy self =
        ([List_term, Usock_term, Backoff_term, Epbase_term, Fsm_term, Free_self], None)"
    by (simp add: nn_blibfabric_destroy_def)
next
  assume a: "b_run cfg s0 (ev # evs) = Inr (s1, log1) \<and>
    b_run_shutdown s1 evs' = Inr (s2, log2) \<and> Epbase_stopped \<notin> set log2"
  then have "b_state s1 \<noteq> NN_BLIBFABRIC_STATE_IDLE"
    by (blast dest: b_run_not_idle)
  with a have "b_state s2 \<noteq> NN_BLIBFABRIC_STATE_IDLE"
    by (blast dest: run_shutdown_idle)
  then show "nn_blibfabric_destroy s2 = ([], Some Assert_failed)"
    by (simp add: nn_blibfabric_destroy_def)
qed

theorem destroy_requires_stopped_witness:
  "nn_blibfabric_destroy
     \<lparr>b_state = NN_BLIBFABRIC_STATE_ACTIVE, alibfabric = Some 1, alibfabrics = []\<rparr> =
     ([], Some Assert_failed) \<and>
   nn_blibfabric_destroy
     \<lparr>b_state = NN_BLIBFABRIC_STATE_IDLE, alibfabric = Some 1, alibfabrics = []\<rparr> =
     ([List_term], Some Assert_failed) \<and>
   nn_blibfabric_destroy
     \<lparr>b_state = NN_BLIBFABRIC_STATE_IDLE, alibfabric = None, alibfabrics = []\<rparr> =
     ([List_term, Usock_term, Backoff_term, Epbase_term, Fsm_term, Free_self], None) \<and>
   b_run (example_config ''*:5555'' 100 0)
     \<lparr>b_state = NN_BLIBFABRIC_STATE_IDLE, alibfabric = None, alibfabrics = []\<rparr>
     [(all_fine 1, NN_FSM_ACTION, NN_FSM_START, None)] =
     Inr (\<lparr>b_state = NN_BLIBFABRIC_STATE_ACTIVE, alibfabric = Some 1, alibfabrics = []\<rparr>,
          [Usock_start AF_INET 0, Usock_bind AF_INET 5555 0, Usock_listen 100 0,
           Alibfabric_init 1, Alibfabric_start 1]) \<and>
   b_run_shutdown
     \<lparr>b_state = NN_BLIBFABRIC_STATE_ACTIVE, alibfabric = Some 1, alibfabrics = []\<rparr>
     [((all_fine 0)\<lparr>alibfabric_isidle := False\<rparr>, NN_FSM_ACTION, NN_FSM_STOP, None)] =
     Inr (\<lparr>b_state = NN_BLIBFABRIC_STATE_STOPPING_ALIBFABRIC, alibfabric = Some 1,
            alibfabrics = []\<rparr>,
          [Backoff_stop, Alibfabric_stop 1, Alibfabric_isidle 1 False]) \<and>
   nn_blibfabric_destroy
     \<lparr>b_state = NN_BLIBFABRIC_STATE_STOPPING_ALIBFABRIC, alibfabric = Some 1,
       alibfabrics = []\<rparr> = ([], Some Assert_failed)"
  using
    destroy_requires_stopped
      [of "\<lparr>b_state = NN_BLIBFABRIC_STATE_IDLE, alibfabric = Some 1, alibfabrics = []\<rparr>"
        "example_config ''*:5555'' 100 0"
        "\<lparr>b_state = NN_BLIBFABRIC_STATE_IDLE, alibfabric = None, alibfabrics = []\<rparr>"
        "(all_fine 1, NN_FSM_ACTION, NN_FSM_START, None)" "[]"
        "\<lparr>b_state = NN_BLIBFABRIC_STATE_ACTIVE, alibfabric = Some 1, alibfabrics = []\<rparr>"
        "[Usock_start AF_INET 0, Usock_bind AF_INET 5555 0, Usock_listen 100 0,
          Alibfabric_init 1, Alibfabric_start 1]"
        "[((all_fine 0)\<lparr>alibfabric_isidle := False\<rparr>, NN_FSM_ACTION, NN_FSM_STOP, None)]"
        "\<lparr>b_state = NN_BLIBFABRIC_STATE_STOPPING_ALIBFABRIC, alibfabric = Some 1,
          alibfabrics = []\<rparr>"
        "[Backoff_stop, Alibfabric_stop 1, Alibfabric_isidle 1 False]"]
    destroy_requires_stopped
      [of "\<lparr>b_state = NN_BLIBFABRIC_STATE_IDLE, alibfabric = None, alibfabrics = []\<rparr>"]
    destroy_requires_stopped
      [of "\<lparr>b_state = NN_BLIBFABRIC_STATE_ACTIVE, alibfabric = Some 1, alibfabrics = []\<rparr>"]
  by (simp add: nn_blibfabric_destroy_def nn_blibfabric_handler_def example_listen
        nn_blibfabric_start_accepting_def shutdown_defs all_fine_def releases_def)


section \<open>Accepting and retrying\<close>

text \<open>
  Claim C4. A created listener that is ACTIVE after any run of its handler has a
  connection being accepted. When that connection reports accepted, the handler
  appends it to the list of accepted connections, and the only calls it makes are the
  initialisation and the start of a newly allocated one, which takes its place.
  Provided \<^verbatim>\<open>nn_alloc\<close> returns memory not in use, the connection being accepted is
  never also in the list.
\<close>

theorem one_acceptor_while_active:
  "(nn_blibfabric_create cfg mem = Inr (0, cs0, Some s0) \<and>
    b_run cfg s0 evs = Inr (self, log) \<and> b_state self = NN_BLIBFABRIC_STATE_ACTIVE \<longrightarrow>
      (\<exists>a. alibfabric self = Some a)) \<and>
   (b_state self = NN_BLIBFABRIC_STATE_ACTIVE \<and> alibfabric self = Some a \<and>
    alloc env = Some p \<longrightarrow>
      nn_blibfabric_handler cfg env self src NN_ALIBFABRIC_ACCEPTED (Some a) =
        Inr (self\<lparr>alibfabrics := alibfabrics self @ [a], alibfabric := Some p\<rparr>,
             [Alibfabric_init p, Alibfabric_start p])) \<and>
   (b_inv self \<and> alloc_fresh env self \<and>
    nn_blibfabric_handler cfg env self src type srcptr = Inr (self', cs) \<longrightarrow>
      b_inv self' \<and>
      (b_state self' = NN_BLIBFABRIC_STATE_ACTIVE \<longrightarrow>
         (\<exists>a. alibfabric self' = Some a \<and> a \<notin> set (alibfabrics self'))))"
proof (intro conjI impI)
  assume a: "nn_blibfabric_create cfg mem = Inr (0, cs0, Some s0) \<and>
    b_run cfg s0 evs = Inr (self, log) \<and> b_state self = NN_BLIBFABRIC_STATE_ACTIVE"
  then have "b_inv s0" by (blast dest: b_inv_create)
  then have "b_state s0 = NN_BLIBFABRIC_STATE_ACTIVE \<longrightarrow> alibfabric s0 \<noteq> None"
    by (auto simp: b_inv_def split: option.splits)
  with a have "alibfabric self \<noteq> None" by (blast dest: b_run_active)
  then show "\<exists>a. alibfabric self = Some a" by auto
next
  assume "b_state self = NN_BLIBFABRIC_STATE_ACTIVE \<and> alibfabric self = Some a \<and>
    alloc env = Some p"
  then show "nn_blibfabric_handler cfg env self src NN_ALIBFABRIC_ACCEPTED (Some a) =
        Inr (self\<lparr>alibfabrics := alibfabrics self @ [a], alibfabric := Some p\<rparr>,
             [Alibfabric_init p, Alibfabric_start p])"
    by (simp add: nn_blibfabric_handler_def nn_blibfabric_start_accepting_def)
next
  assume a: "b_inv self \<and> alloc_fresh env self \<and>
    nn_blibfabric_handler cfg env self src type srcptr = Inr (self', cs)"
  then show i: "b_inv self'" by (blast intro: b_inv_handler)
  assume "b_state self' = NN_BLIBFABRIC_STATE_ACTIVE"
  with i show "\<exists>a. alibfabric self' = Some a \<and> a \<notin> set (alibfabrics self')"
    by (auto simp: b_inv_def split: option.splits)
qed

theorem one_acceptor_while_active_witness:
  "nn_blibfabric_create (example_config ''*:5555'' 100 0) (Some 9) =
     Inr (0, [Epbase_init, Fsm_init_root, Backoff_init 100 100, Usock_init, List_init,
              Fsm_start],
          Some \<lparr>b_state = NN_BLIBFABRIC_STATE_IDLE, alibfabric = None, alibfabrics = []\<rparr>) \<and>
   b_run (example_config ''*:5555'' 100 0)
     \<lparr>b_state = NN_BLIBFABRIC_STATE_IDLE, alibfabric = None, alibfabrics = []\<rparr>
     [(all_fine 1, NN_FSM_ACTION, NN_FSM_START, None)] =
     Inr (\<lparr>b_state = NN_BLIBFABRIC_STATE_ACTIVE, alibfabric = Some 1, alibfabrics = []\<rparr>,
          [Usock_start AF_INET 0, Usock_bind AF_INET 5555 0, Usock_listen 100 0,
           Alibfabric_init 1, Alibfabric_start 1]) \<and>
   b_inv \<lparr>b_state = NN_BLIBFABRIC_STATE_ACTIVE, alibfabric = Some 1, alibfabrics = []\<rparr> \<and>
   alloc_fresh (all_fine 2)
     \<lparr>b_state = NN_BLIBFABRIC_STATE_ACTIVE, alibfabric = Some 1, alibfabrics = []\<rparr> \<and>
   nn_blibfabric_handler (example_config ''*:5555'' 100 0) (all_fine 2)
     \<lparr>b_state = NN_BLIBFABRIC_STATE_ACTIVE, alibfabric = Some 1, alibfabrics = []\<rparr>
     SRC_ALIBFABRIC NN_ALIBFABRIC_ACCEPTED (Some 1) =
     Inr (\<lparr>b_state = NN_BLIBFABRIC_STATE_ACTIVE, alibfabric = Some 2, alibfabrics = [1]\<rparr>,
          [Alibfabric_init 2, Alibfabric_start 2]) \<and>
   b_inv \<lparr>b_state = NN_BLIBFABRIC_STATE_ACTIVE, alibfabric = Some 2, alibfabrics = [1]\<rparr>"
  using one_acceptor_while_active
    [of "example_config ''*:5555'' 100 0" "Some 9"
      "[Epbase_init, Fsm_init_root, Backoff_init 100 100, Usock_init, List_init, Fsm_start]"
      "\<lparr>b_state = NN_BLIBFABRIC_STATE_IDLE, alibfabric = None, alibfabrics = []\<rparr>"
      "[(all_fine 1, NN_FSM_ACTION, NN_FSM_START, None)]"
      "\<lparr>b_state = NN_BLIBFABRIC_STATE_ACTIVE, alibfabric = Some 1, alibfabrics = []\<rparr>"
      "[Usock_start AF_INET 0, Usock_bind AF_INET 5555 0, Usock_listen 100 0,
        Alibfabric_init 1, Alibfabric_start 1]"
      1 "all_fine 2" 2 SRC_ALIBFABRIC NN_ALIBFABRIC_ACCEPTED "Some 1"
      "\<lparr>b_state = NN_BLIBFABRIC_STATE_ACTIVE, alibfabric = Some 2, alibfabrics = [1]\<rparr>"
      "[Alibfabric_init 2, Alibfabric_start 2]"]
  by (simp add: b_create_cases example_faults example_options nn_blibfabric_handler_def
        example_listen nn_blibfabric_start_accepting_def all_fine_def b_inv_def
        alloc_fresh_def)

text \<open>
  Claim C2 as stated fails when the socket cannot be opened: the listener, started on
  \<^verbatim>\<open>*:5555\<close> with \<^verbatim>\<open>nn_usock_start\<close> returning \<open>- 24\<close>, starts the backoff
  timer and is in WAITING without having stopped the socket.
\<close>

theorem open_failure_skips_socket_stop:
  "nn_blibfabric_handler (example_config ''*:5555'' 100 0)
     ((all_fine 1)\<lparr>usock_start_rc := - 24\<rparr>)
     \<lparr>b_state = NN_BLIBFABRIC_STATE_IDLE, alibfabric = None, alibfabrics = []\<rparr>
     NN_FSM_ACTION NN_FSM_START None =
     Inr (\<lparr>b_state = NN_BLIBFABRIC_STATE_WAITING, alibfabric = None, alibfabrics = []\<rparr>,
          [Usock_start AF_INET (- 24), Backoff_start])"
  by (simp add: nn_blibfabric_handler_def example_listen all_fine_def)

text \<open>
  Claim C2, amended. When the start-listening sequence fails to open the socket it
  starts the backoff timer and enters WAITING at once. When the socket is open and the
  bind or the listen fails, its last call is the stop of the socket, it does not start
  the timer and it enters CLOSING; from CLOSING only the socket's stopped event leads
  on, to WAITING with the timer started. From WAITING the timeout stops the timer, and
  the timer's stopped event runs the whole start-listening sequence again.
\<close>

theorem listen_failure_backs_off:
  "nn_blibfabric_start_listening cfg env self = Inr (self', cs) \<Longrightarrow>
   (usock_start_rc env < 0 \<longrightarrow>
      self' = self\<lparr>b_state := NN_BLIBFABRIC_STATE_WAITING\<rparr> \<and>
      (\<exists>f. cs = [Usock_start f (usock_start_rc env), Backoff_start])) \<and>
   (0 \<le> usock_start_rc env \<and> (usock_bind_rc env < 0 \<or> usock_listen_rc env < 0) \<longrightarrow>
      self' = self\<lparr>b_state := NN_BLIBFABRIC_STATE_CLOSING\<rparr> \<and>
      last cs = Usock_stop \<and> Backoff_start \<notin> set cs) \<and>
   (\<forall>env' src type srcptr self'' cs'.
      b_state self' = NN_BLIBFABRIC_STATE_CLOSING \<and>
      nn_blibfabric_handler cfg env' self' src type srcptr = Inr (self'', cs') \<longrightarrow>
      src = SRC_USOCK \<and>
      (type = NN_USOCK_SHUTDOWN \<and> self'' = self' \<and> cs' = [] \<or>
       type = NN_USOCK_STOPPED \<and>
       self'' = self'\<lparr>b_state := NN_BLIBFABRIC_STATE_WAITING\<rparr> \<and>
       cs' = [Backoff_start])) \<and>
   (\<forall>env' srcptr.
      nn_blibfabric_handler cfg env' (self'\<lparr>b_state := NN_BLIBFABRIC_STATE_CLOSING\<rparr>)
        SRC_USOCK NN_USOCK_STOPPED srcptr =
      Inr (self'\<lparr>b_state := NN_BLIBFABRIC_STATE_WAITING\<rparr>, [Backoff_start])) \<and>
   (\<forall>env' srcptr.
      nn_blibfabric_handler cfg env' (self'\<lparr>b_state := NN_BLIBFABRIC_STATE_WAITING\<rparr>)
        SRC_RECONNECT_TIMER NN_BACKOFF_TIMEOUT srcptr =
      Inr (self'\<lparr>b_state := NN_BLIBFABRIC_STATE_STOPPING_BACKOFF\<rparr>, [Backoff_stop])) \<and>
   (\<forall>env' srcptr.
      nn_blibfabric_handler cfg env'
        (self'\<lparr>b_state := NN_BLIBFABRIC_STATE_STOPPING_BACKOFF\<rparr>)
        SRC_RECONNECT_TIMER NN_BACKOFF_STOPPED srcptr =
      nn_blibfabric_start_listening cfg env'
        (self'\<lparr>b_state := NN_BLIBFABRIC_STATE_STOPPING_BACKOFF\<rparr>))"
proof (intro conjI allI impI)
  assume r: "nn_blibfabric_start_listening cfg env self = Inr (self', cs)"
  {
    assume "usock_start_rc env < 0"
    with start_listening_cases [OF r]
    show "self' = self\<lparr>b_state := NN_BLIBFABRIC_STATE_WAITING\<rparr>"
      and "\<exists>f. cs = [Usock_start f (usock_start_rc env), Backoff_start]"
      by auto
  }
  {
    assume "0 \<le> usock_start_rc env \<and> (usock_bind_rc env < 0 \<or> usock_listen_rc env < 0)"
    with start_listening_cases [OF r]
    show "self' = self\<lparr>b_state := NN_BLIBFABRIC_STATE_CLOSING\<rparr>"
      and "last cs = Usock_stop" and "Backoff_start \<notin> set cs"
      by auto
  }
  {
    fix env' src type srcptr self'' cs'
    assume "b_state self' = NN_BLIBFABRIC_STATE_CLOSING \<and>
      nn_blibfabric_handler cfg env' self' src type srcptr = Inr (self'', cs')"
    then show "src = SRC_USOCK"
      and "type = NN_USOCK_SHUTDOWN \<and> self'' = self' \<and> cs' = [] \<or>
       type = NN_USOCK_STOPPED \<and>
       self'' = self'\<lparr>b_state := NN_BLIBFABRIC_STATE_WAITING\<rparr> \<and>
       cs' = [Backoff_start]"
      by (auto dest!: b_handler_cases)
  }
qed (simp_all add: nn_blibfabric_handler_def)

theorem listen_failure_backs_off_witness:
  "nn_blibfabric_start_listening (example_config ''*:5555'' 100 0)
     ((all_fine 1)\<lparr>usock_bind_rc := - 98\<rparr>)
     \<lparr>b_state = NN_BLIBFABRIC_STATE_IDLE, alibfabric = None, alibfabrics = []\<rparr> =
     Inr (\<lparr>b_state = NN_BLIBFABRIC_STATE_CLOSING, alibfabric = None, alibfabrics = []\<rparr>,
          [Usock_start AF_INET 0, Usock_bind AF_INET 5555 (- 98), Usock_stop]) \<and>
   nn_blibfabric_handler (example_config ''*:5555'' 100 0) (all_fine 1)
     \<lparr>b_state = NN_BLIBFABRIC_STATE_CLOSING, alibfabric = None, alibfabrics = []\<rparr>
     SRC_USOCK NN_USOCK_STOPPED None =
     Inr (\<lparr>b_state = NN_BLIBFABRIC_STATE_WAITING, alibfabric = None, alibfabrics = []\<rparr>,
          [Backoff_start]) \<and>
   nn_blibfabric_start_listening (example_config ''*:5555'' 100 0)
     ((all_fine 1)\<lparr>usock_start_rc := - 24\<rparr>)
     \<lparr>b_state = NN_BLIBFABRIC_STATE_STOPPING_BACKOFF, alibfabric = None, alibfabrics = []\<rparr> =
     Inr (\<lparr>b_state = NN_BLIBFABRIC_STATE_WAITING, alibfabric = None, alibfabrics = []\<rparr>,
          [Usock_start AF_INET (- 24), Backoff_start])"
  using
    listen_failure_backs_off
      [of "example_config ''*:5555'' 100 0" "(all_fine 1)\<lparr>usock_bind_rc := - 98\<rparr>"
        "\<lparr>b_state = NN_BLIBFABRIC_STATE_IDLE, alibfabric = None, alibfabrics = []\<rparr>"
        "\<lparr>b_state = NN_BLIBFABRIC_STATE_CLOSING, alibfabric = None, alibfabrics = []\<rparr>"
        "[Usock_start AF_INET 0, Usock_bind AF_INET 5555 (- 98), Usock_stop]"]
    listen_failure_backs_off
      [of "example_config ''*:5555'' 100 0" "(all_fine 1)\<lparr>usock_start_rc := - 24\<rparr>"
        "\<lparr>b_state = NN_BLIBFABRIC_STATE_STOPPING_BACKOFF, alibfabric = None,
          alibfabrics = []\<rparr>"
        "\<lparr>b_state = NN_BLIBFABRIC_STATE_WAITING, alibfabric = None, alibfabrics = []\<rparr>"
        "[Usock_start AF_INET (- 24), Backoff_start]"]
  by (simp add: example_listen all_fine_def nn_blibfabric_handler_def)

end
